theory Spec2Isabelle
  imports Complex_Main
begin

section \<open>Numbers, errors and geometry helpers\<close>

text \<open>
  The program is JavaScript. Its numbers are modelled as mathematical reals: overflow
  and NaN or infinite inputs are outside the model, and so is rounding, except where
  the smoother is run in binary64 (\<open>lerp64\<close>, \<open>applySmoothing64\<close> below), with every
  operation rounded to the nearest double. A property that is absent
  (\<^verbatim>\<open>undefined\<close>) is \<open>None\<close>. The two ways in which a computation can leave the
  reals are outcomes of the model:
  \<^item> \<open>TypeError\<close>: reading a property of \<^verbatim>\<open>undefined\<close> (an array read past the end
    followed by \<^verbatim>\<open>.x\<close>) throws;
  \<^item> \<open>NonFinite\<close>: a division by zero, which in JavaScript yields NaN or an infinity and
    does not throw. The model stops at the division and reports it.
\<close>

datatype js_error = TypeError | NonFinite

definition bind_err :: "'e + 'a \<Rightarrow> ('a \<Rightarrow> 'e + 'b) \<Rightarrow> 'e + 'b" where
  "bind_err m f = (case m of Inl e \<Rightarrow> Inl e | Inr v \<Rightarrow> f v)"

definition js_div :: "real \<Rightarrow> real \<Rightarrow> js_error + real" where
  "js_div a b = (if b = 0 then Inl NonFinite else Inr (a / b))"

text \<open>\<^verbatim>\<open>Math.hypot(a, b)\<close> and \<^verbatim>\<open>Math.atan2(y, x)\<close> of the standard library.\<close>

definition hypot :: "real \<Rightarrow> real \<Rightarrow> real" where
  "hypot a b = sqrt (a * a + b * b)"

definition atan2 :: "real \<Rightarrow> real \<Rightarrow> real" where
  "atan2 b a =
     (if 0 < a then arctan (b / a)
      else if a < 0 then (if 0 \<le> b then arctan (b / a) + pi else arctan (b / a) - pi)
      else if 0 < b then pi / 2
      else if b < 0 then - (pi / 2)
      else 0)"

text \<open>
  A keypoint \<^verbatim>\<open>{x, y, z}\<close>; \<^verbatim>\<open>z\<close> may be absent. The fields are named \<open>kp_x\<close>,
  \<open>kp_y\<close>, \<open>kp_z\<close> so that \<open>x\<close>, \<open>y\<close>, \<open>z\<close> stay usable as variables.
\<close>

record keypoint =
  kp_x :: real
  kp_y :: real
  kp_z :: "real option"

text \<open>The utility helpers at the end of face.js.\<close>

definition midpoint :: "keypoint \<Rightarrow> keypoint \<Rightarrow> keypoint" where
  "midpoint a b =
     \<lparr> kp_x = (kp_x a + kp_x b) / 2,
       kp_y = (kp_y a + kp_y b) / 2,
       kp_z = (case kp_z a of
                 None \<Rightarrow> None
               | Some za \<Rightarrow> (case kp_z b of None \<Rightarrow> None | Some zb \<Rightarrow> Some ((za + zb) / 2))) \<rparr>"

text \<open>\<^verbatim>\<open>dist\<close> of face.js (the name \<open>dist\<close> is the metric of HOL).\<close>

definition dist_kp :: "keypoint \<Rightarrow> keypoint \<Rightarrow> real" where
  "dist_kp a b = hypot (kp_x a - kp_x b) (kp_y a - kp_y b)"

definition clamp :: "real \<Rightarrow> real \<Rightarrow> real \<Rightarrow> real" where
  "clamp v lo hi = max lo (min hi v)"

section \<open>face.js: landmark indices and extractFaceTransform\<close>

text \<open>The table \<^verbatim>\<open>LM\<close> (MediaPipe FaceMesh 478-point topology).\<close>

definition LEFT_EYE_OUTER :: nat where "LEFT_EYE_OUTER = 33"
definition LEFT_EYE_INNER :: nat where "LEFT_EYE_INNER = 133"
definition RIGHT_EYE_INNER :: nat where "RIGHT_EYE_INNER = 362"
definition RIGHT_EYE_OUTER :: nat where "RIGHT_EYE_OUTER = 263"
definition LEFT_IRIS :: nat where "LEFT_IRIS = 468"
definition RIGHT_IRIS :: nat where "RIGHT_IRIS = 473"
definition NOSE_TIP :: nat where "NOSE_TIP = 1"
definition LEFT_FACE_EDGE :: nat where "LEFT_FACE_EDGE = 234"
definition RIGHT_FACE_EDGE :: nat where "RIGHT_FACE_EDGE = 454"

text \<open>
  \<^verbatim>\<open>keypoints[i]\<close> followed by a property read: past the end of the array the element is
  \<^verbatim>\<open>undefined\<close> and the read throws. Every element that extractFaceTransform fetches
  is read (by \<^verbatim>\<open>midpoint\<close>, \<^verbatim>\<open>dist\<close> or directly).
\<close>

definition kp_at :: "keypoint list \<Rightarrow> nat \<Rightarrow> js_error + keypoint" where
  "kp_at kps i = (if i < length kps then Inr (kps ! i) else Inl TypeError)"

text \<open>
  The pose descriptor \<^verbatim>\<open>{center, eyeDistance, roll, yaw, keypoints}\<close> that the renderer
  consumes, and the extractor's result, which carries the two eye points as well.
\<close>

record pose =
  center :: keypoint
  eyeDistance :: real
  roll :: real
  yaw :: real
  keypoints :: "keypoint list"

record face_transform = pose +
  leftEye :: keypoint
  rightEye :: keypoint

text \<open>
  extractFaceTransform, the same function in both versions of face.js. The statements
  are in the order of the source; \<open>yaw0\<close> is the value of \<^verbatim>\<open>yaw\<close> before the depth
  blend and \<open>yw\<close> its value before the clamp.
\<close>

definition extractFaceTransform :: "keypoint list \<Rightarrow> js_error + face_transform" where
  "extractFaceTransform kps =
     bind_err
       (if 473 < length kps then
          bind_err (kp_at kps LEFT_IRIS) (\<lambda>l.
          bind_err (kp_at kps RIGHT_IRIS) (\<lambda>r. Inr (l, r)))
        else
          bind_err (kp_at kps LEFT_EYE_OUTER) (\<lambda>lo.
          bind_err (kp_at kps LEFT_EYE_INNER) (\<lambda>li.
          bind_err (kp_at kps RIGHT_EYE_INNER) (\<lambda>ri.
          bind_err (kp_at kps RIGHT_EYE_OUTER) (\<lambda>ro.
            Inr (midpoint lo li, midpoint ri ro))))))
       (\<lambda>(leftEye, rightEye).
          let center = midpoint leftEye rightEye;
              eyeDistance = dist_kp leftEye rightEye;
              roll = atan2 (kp_y rightEye - kp_y leftEye) (kp_x rightEye - kp_x leftEye)
          in
          bind_err (kp_at kps NOSE_TIP) (\<lambda>noseTip.
          bind_err (kp_at kps LEFT_FACE_EDGE) (\<lambda>leftEdge.
          bind_err (kp_at kps RIGHT_FACE_EDGE) (\<lambda>rightEdge.
          let dLeft = dist_kp noseTip leftEdge;
              dRight = dist_kp noseTip rightEdge
          in
          bind_err
            (if 0 < dLeft + dRight then js_div (dLeft - dRight) (dLeft + dRight) else Inr 0)
            (\<lambda>yaw0.
          bind_err
            (case kp_z leftEye of
               None \<Rightarrow> Inr yaw0
             | Some lz \<Rightarrow>
                 (case kp_z rightEye of
                    None \<Rightarrow> Inr yaw0
                  | Some rz \<Rightarrow>
                      bind_err (js_div (rz - lz) (max (eyeDistance * 0.5) 1)) (\<lambda>zYaw.
                        Inr (yaw0 * 0.55 + zYaw * 0.45))))
            (\<lambda>yw.
          Inr \<lparr> center = center, eyeDistance = eyeDistance, roll = roll,
                yaw = clamp yw (- 1) 1, keypoints = kps,
                leftEye = leftEye, rightEye = rightEye \<rparr>))))))"

text \<open>
  detectFace (the tasks-vision version of face.js, which has the duplicate-frame check;
  the tfjs version lacks that check and is otherwise the same decision). The module
  variables \<^verbatim>\<open>faceLandmarker\<close> (only its presence matters) and \<^verbatim>\<open>lastVideoTime\<close>
  and the counters of \<^verbatim>\<open>diag\<close> are the record \<open>face_module\<close>; the message
  \<^verbatim>\<open>diag.lastError\<close> is left out. The detector itself is external: what
  \<^verbatim>\<open>detectForVideo\<close> does is the argument \<open>detector_result\<close>.
\<close>

record video =
  readyState :: nat
  currentTime :: real
  videoWidth :: nat
  videoHeight :: nat

record landmark =
  lm_x :: real
  lm_y :: real
  lm_z :: real

datatype detector_result =
    Faces "landmark list list"
  | NoFaces
  | Throws

record face_module =
  hasDetector :: bool
  lastVideoTime :: real
  attempts :: nat
  successes :: nat
  errors :: nat

definition detectFace ::
  "face_module \<Rightarrow> video \<Rightarrow> detector_result \<Rightarrow> keypoint list option \<times> face_module" where
  "detectFace fm v res =
     (if \<not> hasDetector fm then (None, fm)
      else if readyState v < 2 then (None, fm)
      else if currentTime v = lastVideoTime fm then (None, fm)
      else
        let fm1 = fm\<lparr> lastVideoTime := currentTime v, attempts := attempts fm + 1 \<rparr> in
        (case res of
           Throws \<Rightarrow> (None, fm1\<lparr> errors := errors fm1 + 1 \<rparr>)
         | NoFaces \<Rightarrow> (None, fm1)
         | Faces fs \<Rightarrow>
             (case fs of
                [] \<Rightarrow> (None, fm1)
              | f # _ \<Rightarrow>
                  (Some (map (\<lambda>lm. \<lparr> kp_x = lm_x lm * real (videoWidth v),
                                      kp_y = lm_y lm * real (videoHeight v),
                                      kp_z = Some (lm_z lm * real (videoWidth v)) \<rparr>) f),
                   fm1\<lparr> successes := successes fm1 + 1 \<rparr>))))"

section \<open>render.js: drawGlasses\<close>

definition ANCHOR_LEFT_X :: real where "ANCHOR_LEFT_X = 0.30"
definition ANCHOR_RIGHT_X :: real where "ANCHOR_RIGHT_X = 0.70"
definition ANCHOR_Y :: real where "ANCHOR_Y = 0.45"
definition YAW_WIDTH_FACTOR :: real where "YAW_WIDTH_FACTOR = 0.40"
definition YAW_HEIGHT_FACTOR :: real where "YAW_HEIGHT_FACTOR = 0.12"

text \<open>An image or canvas, as far as drawGlasses reads it: its pixel dimensions.\<close>

record canvas_image =
  img_width :: nat
  img_height :: nat

record halves =
  half_left :: canvas_image
  half_right :: canvas_image

text \<open>
  The locals of drawGlasses that the renderer's scale laws are about, each as a function
  of what it is computed from. \<^verbatim>\<open>eyeDistance / anchorSpan\<close> is the only division by a
  value that can be zero (a source image of width 0).
\<close>

definition anchorSpan :: "canvas_image \<Rightarrow> real" where
  "anchorSpan glassesImg = (ANCHOR_RIGHT_X - ANCHOR_LEFT_X) * real (img_width glassesImg)"

definition baseScale :: "canvas_image \<Rightarrow> real \<Rightarrow> real \<Rightarrow> js_error + real" where
  "baseScale glassesImg ed scaleMultiplier =
     bind_err (js_div ed (anchorSpan glassesImg)) (\<lambda>q. Inr (q * scaleMultiplier))"

definition lWidthScale :: "real \<Rightarrow> real" where
  "lWidthScale yw = 1 + yw * YAW_WIDTH_FACTOR"

definition rWidthScale :: "real \<Rightarrow> real" where
  "rWidthScale yw = 1 - yw * YAW_WIDTH_FACTOR"

definition lHeightScale :: "real \<Rightarrow> real" where
  "lHeightScale yw = 1 + yw * YAW_HEIGHT_FACTOR"

definition rHeightScale :: "real \<Rightarrow> real" where
  "rHeightScale yw = 1 - yw * YAW_HEIGHT_FACTOR"

text \<open>
  What drawGlasses does to the canvas: \<^verbatim>\<open>translate\<close>, \<^verbatim>\<open>rotate\<close> and one
  \<^verbatim>\<open>drawImage\<close> per half, each from the whole source canvas to a destination rectangle.
  With a non-finite \<open>baseScale\<close> every \<^verbatim>\<open>drawImage\<close> argument is non-finite and the
  canvas draws nothing; that outcome is \<open>Inl NonFinite\<close>.
\<close>

record draw_image =
  src :: canvas_image
  dx :: real
  dy :: real
  dw :: real
  dh :: real

record glasses_draw =
  translate :: "real \<times> real"
  rotate :: real
  left_draw :: draw_image
  right_draw :: draw_image

definition drawGlasses ::
  "halves \<Rightarrow> 'a pose_scheme \<Rightarrow> canvas_image \<Rightarrow> real \<Rightarrow> real \<Rightarrow> js_error + glasses_draw" where
  "drawGlasses hv transform glassesImg scaleMultiplier vOffset =
     bind_err (baseScale glassesImg (eyeDistance transform) scaleMultiplier) (\<lambda>bs.
       let glassesW = real (img_width glassesImg) * bs;
           glassesH = real (img_height glassesImg) * bs;
           halfW = glassesW / 2;
           anchorOffsetY = (ANCHOR_Y - 0.5) * glassesH;
           lw = halfW * lWidthScale (yaw transform);
           lh = glassesH * lHeightScale (yaw transform);
           rw = halfW * rWidthScale (yaw transform);
           rh = glassesH * rHeightScale (yaw transform)
       in Inr \<lparr> translate = (kp_x (center transform), kp_y (center transform) + vOffset),
                rotate = roll transform,
                left_draw = \<lparr> src = half_left hv, dx = - lw,
                              dy = - lh / 2 + anchorOffsetY, dw = lw, dh = lh \<rparr>,
                right_draw = \<lparr> src = half_right hv, dx = 0,
                               dy = - rh / 2 + anchorOffsetY, dw = rw, dh = rh \<rparr> \<rparr>)"

section \<open>main.js: state, smoothing, detection and the render loop\<close>

text \<open>
  The smoothing state \<^verbatim>\<open>state.smooth\<close>. Its fields \<^verbatim>\<open>eyeDistance\<close>, \<^verbatim>\<open>roll\<close>,
  \<^verbatim>\<open>yaw\<close> and \<^verbatim>\<open>keypoints\<close> carry the prefix \<open>sm_\<close> here, the names being taken
  by the pose descriptor. (The second version of main.js does not keep the keypoints in
  the smoothing state; nothing reads them there.)
\<close>

record smooth_state =
  centerX :: real
  centerY :: real
  sm_eyeDistance :: real
  sm_roll :: real
  sm_yaw :: real
  sm_keypoints :: "keypoint list"

record glasses_asset =
  img :: canvas_image
  asset_halves :: halves

text \<open>
  The object \<^verbatim>\<open>state\<close> together with the module variables \<^verbatim>\<open>modelReady\<close>,
  \<^verbatim>\<open>detecting\<close> and \<^verbatim>\<open>glassesAssets\<close>. The camera stream and the FPS counter are
  left out: nothing below reads them.
\<close>

record app_state =
  running :: bool
  frameCount :: nat
  detectionInterval :: nat
  debugMode :: bool
  frameScaleMultiplier :: real
  verticalOffset :: real
  currentFrameIndex :: nat
  smooth :: "smooth_state option"
  smoothingFactor :: real
  lastFaceTime :: real
  faceTimeoutMs :: real
  lastRawTransform :: "pose option"
  modelReady :: bool
  detecting :: bool
  glassesAssets :: "glasses_asset list"

definition initial_state :: app_state where
  "initial_state =
     \<lparr> running = False, frameCount = 0, detectionInterval = 2, debugMode = False,
       frameScaleMultiplier = 1.0, verticalOffset = 0, currentFrameIndex = 0,
       smooth = None, smoothingFactor = 0.35, lastFaceTime = 0, faceTimeoutMs = 500,
       lastRawTransform = None, modelReady = False, detecting = False,
       glassesAssets = [] \<rparr>"

definition lerp :: "real \<Rightarrow> real \<Rightarrow> real \<Rightarrow> real" where
  "lerp a b t = a + (b - a) * t"

definition buildSmoothed :: "smooth_state \<Rightarrow> keypoint list \<Rightarrow> pose" where
  "buildSmoothed s kps =
     \<lparr> center = \<lparr> kp_x = centerX s, kp_y = centerY s, kp_z = None \<rparr>,
       eyeDistance = sm_eyeDistance s, roll = sm_roll s, yaw = sm_yaw s, keypoints = kps \<rparr>"

text \<open>applySmoothing: the returned descriptor and the state with the updated \<^verbatim>\<open>state.smooth\<close>.\<close>

definition applySmoothing :: "app_state \<Rightarrow> 'a pose_scheme \<Rightarrow> pose \<times> app_state" where
  "applySmoothing st raw =
     (let a = smoothingFactor st in
      case smooth st of
        None \<Rightarrow>
          let s0 = \<lparr> centerX = kp_x (center raw), centerY = kp_y (center raw),
                     sm_eyeDistance = eyeDistance raw, sm_roll = roll raw, sm_yaw = yaw raw,
                     sm_keypoints = keypoints raw \<rparr>
          in (buildSmoothed s0 (keypoints raw), st\<lparr> smooth := Some s0 \<rparr>)
      | Some s \<Rightarrow>
          let s1 = \<lparr> centerX = lerp (centerX s) (kp_x (center raw)) a,
                     centerY = lerp (centerY s) (kp_y (center raw)) a,
                     sm_eyeDistance = lerp (sm_eyeDistance s) (eyeDistance raw) a,
                     sm_roll = lerp (sm_roll s) (roll raw) a,
                     sm_yaw = lerp (sm_yaw s) (yaw raw) a,
                     sm_keypoints = keypoints raw \<rparr>
          in (buildSmoothed s1 (keypoints raw), st\<lparr> smooth := Some s1 \<rparr>))"

text \<open>
  The whole system: the state of main.js, the state of face.js, and a counter that is
  not in the program: \<open>inflight\<close> counts the calls of \<^verbatim>\<open>detectFace\<close> that runDetection
  has made and is still awaiting.
\<close>

record system =
  app :: app_state
  facejs :: face_module
  inflight :: nat

definition initial_system :: system where
  "initial_system =
     \<lparr> app = initial_state,
       facejs = \<lparr> hasDetector = False, lastVideoTime = - 1, attempts = 0, successes = 0,
                  errors = 0 \<rparr>,
       inflight = 0 \<rparr>"

text \<open>
  runDetection is an async function. \<open>runDetection_call\<close> is what a call does before it
  suspends at \<^verbatim>\<open>await detectFace(video)\<close>: the guard, then the flag. \<open>runDetection_resume\<close>
  is the continuation after the await, run when the awaited detection has settled: the
  video and the detector's behaviour at that detection and the value \<open>now\<close> of
  \<^verbatim>\<open>performance.now()\<close> are its arguments. An exception of extractFaceTransform leaves
  through \<^verbatim>\<open>finally\<close>, which resets the flag.
\<close>

definition runDetection_call :: "system \<Rightarrow> system" where
  "runDetection_call sys =
     (if \<not> running (app sys) \<or> \<not> modelReady (app sys) \<or> detecting (app sys) then sys
      else sys\<lparr> app := (app sys)\<lparr> detecting := True \<rparr>, inflight := inflight sys + 1 \<rparr>)"

definition runDetection_resume :: "system \<Rightarrow> video \<Rightarrow> detector_result \<Rightarrow> real \<Rightarrow> system" where
  "runDetection_resume sys v res now =
     (let (face, fm) = detectFace (facejs sys) v res;
          st = (case face of
                  None \<Rightarrow> app sys
                | Some kps \<Rightarrow>
                    (case extractFaceTransform kps of
                       Inl e \<Rightarrow> app sys
                     | Inr raw \<Rightarrow>
                         let (smoothed, st1) = applySmoothing (app sys) raw
                         in st1\<lparr> lastRawTransform := Some smoothed, lastFaceTime := now \<rparr>))
      in \<lparr> app = st\<lparr> detecting := False \<rparr>, facejs = fm, inflight = inflight sys - 1 \<rparr>)"

text \<open>
  One call of renderLoop at time \<open>now\<close>: what it puts on the canvas and the new state.
  \<open>overlay\<close> is the pose of the overlay branch (info panel and glasses) when that branch
  is taken, \<open>glasses\<close> the drawGlasses call when the selected asset exists.
\<close>

record frame =
  overlay :: "pose option"
  glasses :: "(js_error + glasses_draw) option"
  debug_landmarks :: "keypoint list option"

definition renderLoop :: "system \<Rightarrow> real \<Rightarrow> frame option \<times> system" where
  "renderLoop sys now =
     (if \<not> running (app sys) then (None, sys)
      else
        let sys1 = sys\<lparr> app := (app sys)\<lparr> frameCount := frameCount (app sys) + 1 \<rparr> \<rparr>;
            sys2 = (if frameCount (app sys1) mod detectionInterval (app sys1) = 0
                    then runDetection_call sys1 else sys1);
            st = app sys2;
            elapsed = now - lastFaceTime st;
            fr = (case lastRawTransform st of
                    None \<Rightarrow> \<lparr> overlay = None, glasses = None, debug_landmarks = None \<rparr>
                  | Some t \<Rightarrow>
                      if elapsed < faceTimeoutMs st then
                        \<lparr> overlay = Some t,
                          glasses =
                            (if currentFrameIndex st < length (glassesAssets st) then
                               let gl = glassesAssets st ! currentFrameIndex st
                               in Some (drawGlasses (asset_halves gl) t (img gl)
                                          (frameScaleMultiplier st) (verticalOffset st))
                             else None),
                          debug_landmarks = (if debugMode st then Some (keypoints t) else None) \<rparr>
                      else \<lparr> overlay = None, glasses = None, debug_landmarks = None \<rparr>)
        in (Some fr, sys2))"

text \<open>
  Everything that changes the state, as events of the single thread: the end of
  \<^verbatim>\<open>init\<close>, the camera buttons (startCamera after its awaits succeeded), a render tick,
  the settling of the awaited detection, and the four controls. A detection cannot
  settle when none is awaited: that event then changes nothing.
\<close>

datatype event =
    InitDone "glasses_asset list"
  | StartCamera
  | StopCamera
  | Tick real
  | DetectionDone video detector_result real
  | SetFrame nat
  | SetDebug bool
  | SetScale real
  | SetOffset real

definition step :: "system \<Rightarrow> event \<Rightarrow> system" where
  "step sys ev =
     (case ev of
        InitDone assets \<Rightarrow>
          sys\<lparr> app := (app sys)\<lparr> glassesAssets := assets, modelReady := True \<rparr>,
               facejs := (facejs sys)\<lparr> hasDetector := True \<rparr> \<rparr>
      | StartCamera \<Rightarrow> sys\<lparr> app := (app sys)\<lparr> running := True, frameCount := 0 \<rparr> \<rparr>
      | StopCamera \<Rightarrow>
          sys\<lparr> app := (app sys)\<lparr> running := False, smooth := None, lastRawTransform := None \<rparr> \<rparr>
      | Tick now \<Rightarrow> snd (renderLoop sys now)
      | DetectionDone v res now \<Rightarrow>
          (if inflight sys = 0 then sys else runDetection_resume sys v res now)
      | SetFrame i \<Rightarrow> sys\<lparr> app := (app sys)\<lparr> currentFrameIndex := i \<rparr> \<rparr>
      | SetDebug b \<Rightarrow> sys\<lparr> app := (app sys)\<lparr> debugMode := b \<rparr> \<rparr>
      | SetScale m \<Rightarrow> sys\<lparr> app := (app sys)\<lparr> frameScaleMultiplier := m \<rparr> \<rparr>
      | SetOffset d \<Rightarrow> sys\<lparr> app := (app sys)\<lparr> verticalOffset := d \<rparr> \<rparr>)"

definition run :: "event list \<Rightarrow> system" where
  "run evs = foldl step initial_system evs"

section \<open>Concrete inputs\<close>

text \<open>
  Keypoint sequences on which the extractor is run below: one of the 478-point
  topology (with iris points and depth), two variants of it whose depth difference
  between the eyes drives the yaw estimate far beyond 1 and far below -1, and one of the
  468-point topology without depth. All points that are not named lie at the origin.
\<close>

definition demo_kps_iris :: "keypoint list" where
  "demo_kps_iris =
     (replicate 478 \<lparr> kp_x = 0, kp_y = 0, kp_z = Some 0 \<rparr>)
       [1 := \<lparr> kp_x = 0, kp_y = 0, kp_z = Some 0 \<rparr>,
        234 := \<lparr> kp_x = - 2, kp_y = 0, kp_z = Some 0 \<rparr>,
        454 := \<lparr> kp_x = 1, kp_y = 0, kp_z = Some 0 \<rparr>,
        468 := \<lparr> kp_x = - 1, kp_y = 0, kp_z = Some 0 \<rparr>,
        473 := \<lparr> kp_x = 1, kp_y = 0, kp_z = Some 1 \<rparr>]"

definition demo_kps_turned :: "keypoint list" where
  "demo_kps_turned = demo_kps_iris[473 := \<lparr> kp_x = 1, kp_y = 0, kp_z = Some 100 \<rparr>]"

definition demo_kps_averted :: "keypoint list" where
  "demo_kps_averted = demo_kps_iris[468 := \<lparr> kp_x = - 1, kp_y = 0, kp_z = Some 100 \<rparr>]"


text \<open>
  Successive calls of applySmoothing: the state after feeding a list of raw poses, and
  (below) the descriptor returned by call number \<open>n + 1\<close> of a run that feeds one raw pose
  again and again.
\<close>

definition applySmoothing_seq :: "app_state \<Rightarrow> 'a pose_scheme list \<Rightarrow> app_state" where
  "applySmoothing_seq st raws = foldl (\<lambda>s raw. snd (applySmoothing s raw)) st raws"

text \<open>
  A session: a 640 by 480 video, one detected face of 478 landmarks in normalised
  coordinates, one glasses asset of 400 by 160 pixels, and the events up to the first
  completed detection (\<open>demo_tracking\<close>). \<open>demo_keypoints\<close>, \<open>demo_raw\<close>, \<open>demo_pose\<close> and
  \<open>demo_smooth\<close> are what detectFace, extractFaceTransform and applySmoothing make of that
  face; \<open>demo_started\<close> and \<open>demo_awaiting\<close> are the session before the detection starts
  and while it is awaited, \<open>demo_restart\<close> the session stopped and started again after it.
\<close>

definition demo_video :: video where
  "demo_video = \<lparr> readyState = 4, currentTime = 0.5, videoWidth = 640, videoHeight = 480 \<rparr>"

definition demo_landmarks :: "landmark list" where
  "demo_landmarks =
     (replicate 478 \<lparr> lm_x = 0.5, lm_y = 0.5, lm_z = 0 \<rparr>)
       [234 := \<lparr> lm_x = 0.25, lm_y = 0.5, lm_z = 0 \<rparr>,
        454 := \<lparr> lm_x = 0.625, lm_y = 0.5, lm_z = 0 \<rparr>,
        468 := \<lparr> lm_x = 0.4375, lm_y = 0.5, lm_z = 0 \<rparr>,
        473 := \<lparr> lm_x = 0.5625, lm_y = 0.5, lm_z = 0.0125 \<rparr>]"

definition demo_asset :: glasses_asset where
  "demo_asset =
     \<lparr> img = \<lparr> img_width = 400, img_height = 160 \<rparr>,
       asset_halves = \<lparr> half_left = \<lparr> img_width = 200, img_height = 160 \<rparr>,
                        half_right = \<lparr> img_width = 200, img_height = 160 \<rparr> \<rparr> \<rparr>"

definition demo_tracking :: "event list" where
  "demo_tracking =
     [InitDone [demo_asset], StartCamera, Tick 1000, Tick 1016,
      DetectionDone demo_video (Faces [demo_landmarks]) 1050]"

definition demo_keypoints :: "keypoint list" where
  "demo_keypoints =
     (replicate 478 \<lparr> kp_x = 320, kp_y = 240, kp_z = Some 0 \<rparr>)
       [234 := \<lparr> kp_x = 160, kp_y = 240, kp_z = Some 0 \<rparr>,
        454 := \<lparr> kp_x = 400, kp_y = 240, kp_z = Some 0 \<rparr>,
        468 := \<lparr> kp_x = 280, kp_y = 240, kp_z = Some 0 \<rparr>,
        473 := \<lparr> kp_x = 360, kp_y = 240, kp_z = Some 8 \<rparr>]"

definition demo_raw :: face_transform where
  "demo_raw =
     \<lparr> center = \<lparr> kp_x = 320, kp_y = 240, kp_z = Some 4 \<rparr>, eyeDistance = 80, roll = 0,
       yaw = 41 / 150, keypoints = demo_keypoints,
       leftEye = \<lparr> kp_x = 280, kp_y = 240, kp_z = Some 0 \<rparr>,
       rightEye = \<lparr> kp_x = 360, kp_y = 240, kp_z = Some 8 \<rparr> \<rparr>"

definition demo_pose :: pose where
  "demo_pose =
     \<lparr> center = \<lparr> kp_x = 320, kp_y = 240, kp_z = None \<rparr>, eyeDistance = 80, roll = 0,
       yaw = 41 / 150, keypoints = demo_keypoints \<rparr>"

definition demo_smooth :: smooth_state where
  "demo_smooth =
     \<lparr> centerX = 320, centerY = 240, sm_eyeDistance = 80, sm_roll = 0, sm_yaw = 41 / 150,
       sm_keypoints = demo_keypoints \<rparr>"



text \<open>
  Binary64. \<open>binary64 x\<close> is the double nearest to the real \<open>x\<close>, ties to the even
  significand: the spacing of the doubles around \<open>x\<close> is \<open>2\<close> to the power
  \<open>max \<lfloor>log\<^sub>2 |x|\<rfloor> (-1022) - 52\<close> (subnormals included). Overflow to an infinity
  (\<open>|x|\<close> of \<open>2\<^sup>1\<^sup>0\<^sup>2\<^sup>4\<close> and more) is not modelled. \<open>lerp64\<close> and \<open>applySmoothing64\<close> are
  \<^verbatim>\<open>lerp\<close> and \<^verbatim>\<open>applySmoothing\<close> of main.js with every arithmetic operation rounded
  this way, as the program runs them.
\<close>

definition round_nearest_even :: "real \<Rightarrow> int" where
  "round_nearest_even x =
     (let f = \<lfloor>x\<rfloor>; d = x - of_int f
      in if d < 1 / 2 then f
         else if 1 / 2 < d then f + 1
         else if even f then f else f + 1)"

definition binary64 :: "real \<Rightarrow> real" where
  "binary64 x =
     (if x = 0 then 0
      else
        let q = 2 powr of_int (max \<lfloor>log 2 \<bar>x\<bar>\<rfloor> (- 1022) - 52)
        in of_int (round_nearest_even (x / q)) * q)"









definition demo_restart :: "event list" where
  "demo_restart = demo_tracking @ [StopCamera, StartCamera]"

definition demo_awaiting :: "event list" where
  "demo_awaiting = [InitDone [demo_asset], StartCamera, Tick 1000, Tick 1016]"

text \<open>
  A second detection in the same session: the next video frame shows the face moved and
  turned, and \<open>demo_second_awaiting\<close> is the session at the moment this detection is
  awaited, the first pose being kept in the smoothing state.
\<close>

definition demo_video2 :: video where
  "demo_video2 = \<lparr> readyState = 4, currentTime = 0.6, videoWidth = 640, videoHeight = 480 \<rparr>"

definition demo_landmarks2 :: "landmark list" where
  "demo_landmarks2 =
     (replicate 478 \<lparr> lm_x = 0.5, lm_y = 0.5, lm_z = 0 \<rparr>)
       [234 := \<lparr> lm_x = 0.25, lm_y = 0.5, lm_z = 0 \<rparr>,
        454 := \<lparr> lm_x = 0.75, lm_y = 0.5, lm_z = 0 \<rparr>,
        468 := \<lparr> lm_x = 0.5, lm_y = 0.625, lm_z = 0 \<rparr>,
        473 := \<lparr> lm_x = 0.6875, lm_y = 0.625, lm_z = 0.09375 \<rparr>]"

definition demo_keypoints2 :: "keypoint list" where
  "demo_keypoints2 =
     (replicate 478 \<lparr> kp_x = 320, kp_y = 240, kp_z = Some 0 \<rparr>)
       [234 := \<lparr> kp_x = 160, kp_y = 240, kp_z = Some 0 \<rparr>,
        454 := \<lparr> kp_x = 480, kp_y = 240, kp_z = Some 0 \<rparr>,
        468 := \<lparr> kp_x = 320, kp_y = 300, kp_z = Some 0 \<rparr>,
        473 := \<lparr> kp_x = 440, kp_y = 300, kp_z = Some 60 \<rparr>]"

definition demo_raw2 :: face_transform where
  "demo_raw2 =
     \<lparr> center = \<lparr> kp_x = 380, kp_y = 300, kp_z = Some 30 \<rparr>, eyeDistance = 120, roll = 0,
       yaw = 9 / 20, keypoints = demo_keypoints2,
       leftEye = \<lparr> kp_x = 320, kp_y = 300, kp_z = Some 0 \<rparr>,
       rightEye = \<lparr> kp_x = 440, kp_y = 300, kp_z = Some 60 \<rparr> \<rparr>"

definition demo_second_awaiting :: "event list" where
  "demo_second_awaiting = demo_tracking @ [Tick 1066, Tick 1083]"

definition demo_started :: "event list" where
  "demo_started = [InitDone [demo_asset], StartCamera, Tick 1000]"

section \<open>The landmark extractor\<close>

lemmas LM_defs =
  LEFT_EYE_OUTER_def LEFT_EYE_INNER_def RIGHT_EYE_INNER_def RIGHT_EYE_OUTER_def
  LEFT_IRIS_def RIGHT_IRIS_def NOSE_TIP_def LEFT_FACE_EDGE_def RIGHT_FACE_EDGE_def

lemma kp_at_ok: "i < length kps \<Longrightarrow> kp_at kps i = Inr (kps ! i)"
  by (simp add: kp_at_def)

lemma bind_err_Inr [simp]: "bind_err (Inr v) f = f v"
  by (simp add: bind_err_def)

lemma bind_err_Inl [simp]: "bind_err (Inl e) f = Inl e"
  by (simp add: bind_err_def)

lemma hypot_euclid: "hypot a b = sqrt (a\<^sup>2 + b\<^sup>2)"
  by (simp add: hypot_def power2_eq_square)

lemma hypot_axis: "hypot a 0 = \<bar>a\<bar>"
  by (simp add: hypot_def)

lemma dist_kp_euclid:
  "dist_kp a b = sqrt ((kp_x a - kp_x b)\<^sup>2 + (kp_y a - kp_y b)\<^sup>2)"
  by (simp add: dist_kp_def hypot_euclid)

lemma js_div_pos: "0 < b \<Longrightarrow> js_div a b = Inr (a / b)"
  by (simp add: js_div_def)

lemma max_half_pos: "0 < max (d * 0.5) (1::real)"
  by (simp add: max_def)

lemma js_div_max: "js_div a (max (d * 0.5) 1) = Inr (a / max (d * 0.5) 1)"
  using max_half_pos[of d] by (simp add: js_div_def)

lemma extract_from_eyes:
  assumes "454 < length kps"
  shows "extractFaceTransform kps =
     (let l = (if 473 < length kps then kps ! 468 else midpoint (kps ! 33) (kps ! 133));
          r = (if 473 < length kps then kps ! 473 else midpoint (kps ! 362) (kps ! 263));
          dLeft = dist_kp (kps ! 1) (kps ! 234);
          dRight = dist_kp (kps ! 1) (kps ! 454);
          y0 = (if 0 < dLeft + dRight then (dLeft - dRight) / (dLeft + dRight) else 0);
          ed = dist_kp l r
      in Inr \<lparr> center = midpoint l r, eyeDistance = ed,
               roll = atan2 (kp_y r - kp_y l) (kp_x r - kp_x l),
               yaw = clamp (case kp_z l of None \<Rightarrow> y0
                            | Some lz \<Rightarrow> (case kp_z r of None \<Rightarrow> y0
                               | Some rz \<Rightarrow> y0 * 0.55 + ((rz - lz) / max (ed * 0.5) 1) * 0.45))
                       (- 1) 1,
               keypoints = kps, leftEye = l, rightEye = r \<rparr>)"
  using assms
  by (simp add: extractFaceTransform_def kp_at_ok LM_defs Let_def js_div_pos js_div_max
      split: option.splits)

lemma clamp_explicit: "clamp v (- 1) 1 = (if v < - 1 then - 1 else if 1 < v then 1 else v)"
  by (simp add: clamp_def)

lemma extract_never_nonfinite: "extractFaceTransform kps \<noteq> Inl NonFinite"
  by (auto simp: extractFaceTransform_def kp_at_def bind_err_def Let_def js_div_pos js_div_max
      split: option.splits sum.splits if_splits)

text \<open>
  Claim C1. On every keypoint sequence that reaches the right face-edge index (454, the
  largest index read on either path, so nose tip and both face edges are present)
  extractFaceTransform returns a descriptor whose yaw is \<open>y\<close> clamped to [-1, 1], that is
  -1 when \<open>y < -1\<close>, 1 when \<open>1 < y\<close> and \<open>y\<close> itself otherwise, where \<open>y0\<close> is
  \<open>(dLeft - dRight) / (dLeft + dRight)\<close> when that sum is positive and 0 otherwise, with
  \<open>dLeft\<close> and \<open>dRight\<close> the Euclidean distances from the nose tip to the face edges,
  and \<open>y\<close> is \<open>y0\<close> when an eye point has no depth and
  \<open>y0 * 0.55 + zYaw * 0.45\<close> otherwise. No division by zero occurs: on no input at all
  does the function leave the reals at a division, and the second divisor is at least 1.
\<close>

theorem extractFaceTransform_yaw:
  "extractFaceTransform kps \<noteq> Inl NonFinite \<and>
   (RIGHT_FACE_EDGE < length kps \<longrightarrow>
     (\<exists>t. extractFaceTransform kps = Inr t \<and>
        (let noseTip = kps ! NOSE_TIP;
             leftEdge = kps ! LEFT_FACE_EDGE;
             rightEdge = kps ! RIGHT_FACE_EDGE;
             dLeft = sqrt ((kp_x noseTip - kp_x leftEdge)\<^sup>2 + (kp_y noseTip - kp_y leftEdge)\<^sup>2);
             dRight = sqrt ((kp_x noseTip - kp_x rightEdge)\<^sup>2 + (kp_y noseTip - kp_y rightEdge)\<^sup>2);
             y0 = (if 0 < dLeft + dRight then (dLeft - dRight) / (dLeft + dRight) else 0);
             y = (case (kp_z (leftEye t), kp_z (rightEye t)) of
                    (Some leftEyeZ, Some rightEyeZ) \<Rightarrow>
                       y0 * 0.55 + ((rightEyeZ - leftEyeZ) / max (eyeDistance t * 0.5) 1) * 0.45
                  | _ \<Rightarrow> y0)
         in yaw t = (if y < - 1 then - 1 else if 1 < y then 1 else y) \<and>
            yaw t = clamp y (- 1) 1 \<and> 1 \<le> max (eyeDistance t * 0.5) 1)))"
proof (intro conjI impI)
  show "extractFaceTransform kps \<noteq> Inl NonFinite"
    by (rule extract_never_nonfinite)
next
  assume "RIGHT_FACE_EDGE < length kps"
  then have len: "454 < length kps"
    by (simp add: RIGHT_FACE_EDGE_def)
  show "\<exists>t. extractFaceTransform kps = Inr t \<and>
        (let noseTip = kps ! NOSE_TIP;
             leftEdge = kps ! LEFT_FACE_EDGE;
             rightEdge = kps ! RIGHT_FACE_EDGE;
             dLeft = sqrt ((kp_x noseTip - kp_x leftEdge)\<^sup>2 + (kp_y noseTip - kp_y leftEdge)\<^sup>2);
             dRight = sqrt ((kp_x noseTip - kp_x rightEdge)\<^sup>2 + (kp_y noseTip - kp_y rightEdge)\<^sup>2);
             y0 = (if 0 < dLeft + dRight then (dLeft - dRight) / (dLeft + dRight) else 0);
             y = (case (kp_z (leftEye t), kp_z (rightEye t)) of
                    (Some leftEyeZ, Some rightEyeZ) \<Rightarrow>
                       y0 * 0.55 + ((rightEyeZ - leftEyeZ) / max (eyeDistance t * 0.5) 1) * 0.45
                  | _ \<Rightarrow> y0)
         in yaw t = (if y < - 1 then - 1 else if 1 < y then 1 else y) \<and>
            yaw t = clamp y (- 1) 1 \<and> 1 \<le> max (eyeDistance t * 0.5) 1)"
    unfolding clamp_explicit[symmetric]
    unfolding extract_from_eyes[OF len] Let_def LM_defs dist_kp_euclid
    by (simp split: option.splits)
qed


lemma demo_iris_len: "length demo_kps_iris = 478"
  by (simp add: demo_kps_iris_def)


lemma demo_iris_nth:
  "demo_kps_iris ! 1 = \<lparr> kp_x = 0, kp_y = 0, kp_z = Some 0 \<rparr>"
  "demo_kps_iris ! Suc 0 = \<lparr> kp_x = 0, kp_y = 0, kp_z = Some 0 \<rparr>"
  "demo_kps_iris ! 234 = \<lparr> kp_x = - 2, kp_y = 0, kp_z = Some 0 \<rparr>"
  "demo_kps_iris ! 454 = \<lparr> kp_x = 1, kp_y = 0, kp_z = Some 0 \<rparr>"
  "demo_kps_iris ! 468 = \<lparr> kp_x = - 1, kp_y = 0, kp_z = Some 0 \<rparr>"
  "demo_kps_iris ! 473 = \<lparr> kp_x = 1, kp_y = 0, kp_z = Some 1 \<rparr>"
  by (simp_all add: demo_kps_iris_def)


lemma dist_kp_axis: "kp_y a = kp_y b \<Longrightarrow> dist_kp a b = \<bar>kp_x a - kp_x b\<bar>"
  by (simp add: dist_kp_def hypot_axis)

lemma demo_turned_len: "length demo_kps_turned = 478" "length demo_kps_averted = 478"
  by (simp_all add: demo_kps_turned_def demo_kps_averted_def demo_iris_len)

lemma demo_turned_nth:
  "demo_kps_turned ! 1 = \<lparr> kp_x = 0, kp_y = 0, kp_z = Some 0 \<rparr>"
  "demo_kps_turned ! Suc 0 = \<lparr> kp_x = 0, kp_y = 0, kp_z = Some 0 \<rparr>"
  "demo_kps_turned ! 234 = \<lparr> kp_x = - 2, kp_y = 0, kp_z = Some 0 \<rparr>"
  "demo_kps_turned ! 454 = \<lparr> kp_x = 1, kp_y = 0, kp_z = Some 0 \<rparr>"
  "demo_kps_turned ! 468 = \<lparr> kp_x = - 1, kp_y = 0, kp_z = Some 0 \<rparr>"
  "demo_kps_turned ! 473 = \<lparr> kp_x = 1, kp_y = 0, kp_z = Some 100 \<rparr>"
  by (simp_all add: demo_kps_turned_def demo_iris_len demo_iris_nth)

lemma demo_averted_nth:
  "demo_kps_averted ! 1 = \<lparr> kp_x = 0, kp_y = 0, kp_z = Some 0 \<rparr>"
  "demo_kps_averted ! Suc 0 = \<lparr> kp_x = 0, kp_y = 0, kp_z = Some 0 \<rparr>"
  "demo_kps_averted ! 234 = \<lparr> kp_x = - 2, kp_y = 0, kp_z = Some 0 \<rparr>"
  "demo_kps_averted ! 454 = \<lparr> kp_x = 1, kp_y = 0, kp_z = Some 0 \<rparr>"
  "demo_kps_averted ! 468 = \<lparr> kp_x = - 1, kp_y = 0, kp_z = Some 100 \<rparr>"
  "demo_kps_averted ! 473 = \<lparr> kp_x = 1, kp_y = 0, kp_z = Some 1 \<rparr>"
  by (simp_all add: demo_kps_averted_def demo_iris_len demo_iris_nth)

theorem extractFaceTransform_yaw_witness:
  "RIGHT_FACE_EDGE < length demo_kps_iris \<and>
   (\<exists>t. extractFaceTransform demo_kps_iris = Inr t \<and> yaw t = 19 / 30) \<and>
   RIGHT_FACE_EDGE < length demo_kps_turned \<and>
   (\<exists>t. extractFaceTransform demo_kps_turned = Inr t \<and> yaw t = 1) \<and>
   RIGHT_FACE_EDGE < length demo_kps_averted \<and>
   (\<exists>t. extractFaceTransform demo_kps_averted = Inr t \<and> yaw t = - 1)"
  using extractFaceTransform_yaw[of demo_kps_iris] extractFaceTransform_yaw[of demo_kps_turned]
    extractFaceTransform_yaw[of demo_kps_averted]
  by (simp add: demo_iris_len demo_turned_len demo_iris_nth demo_turned_nth demo_averted_nth
      LM_defs extract_from_eyes Let_def dist_kp_axis clamp_def)


section \<open>Smoothing and the event loop: basic facts\<close>

lemma applySmoothing_seed:
  assumes "smooth st = None"
  shows "applySmoothing st raw =
     (\<lparr> center = \<lparr> kp_x = kp_x (center raw), kp_y = kp_y (center raw), kp_z = None \<rparr>,
        eyeDistance = eyeDistance raw, roll = roll raw, yaw = yaw raw,
        keypoints = keypoints raw \<rparr>,
      st\<lparr> smooth := Some \<lparr> centerX = kp_x (center raw), centerY = kp_y (center raw),
                            sm_eyeDistance = eyeDistance raw, sm_roll = roll raw,
                            sm_yaw = yaw raw, sm_keypoints = keypoints raw \<rparr> \<rparr>)"
  using assms by (simp add: applySmoothing_def buildSmoothed_def Let_def)

lemma applySmoothing_blend:
  assumes "smooth st = Some s"
  shows "applySmoothing st raw =
     (let a = smoothingFactor st;
          cx = centerX s + (kp_x (center raw) - centerX s) * a;
          cy = centerY s + (kp_y (center raw) - centerY s) * a;
          ed = sm_eyeDistance s + (eyeDistance raw - sm_eyeDistance s) * a;
          rl = sm_roll s + (roll raw - sm_roll s) * a;
          yw = sm_yaw s + (yaw raw - sm_yaw s) * a
      in (\<lparr> center = \<lparr> kp_x = cx, kp_y = cy, kp_z = None \<rparr>, eyeDistance = ed, roll = rl,
             yaw = yw, keypoints = keypoints raw \<rparr>,
          st\<lparr> smooth := Some \<lparr> centerX = cx, centerY = cy, sm_eyeDistance = ed, sm_roll = rl,
                                sm_yaw = yw, sm_keypoints = keypoints raw \<rparr> \<rparr>))"
  using assms by (simp add: applySmoothing_def buildSmoothed_def lerp_def Let_def)

text \<open>The state kept is the descriptor returned.\<close>

lemma applySmoothing_kept:
  "\<exists>s. smooth (snd (applySmoothing st raw)) = Some s \<and>
       fst (applySmoothing st raw) = buildSmoothed s (keypoints raw)"
  by (simp add: applySmoothing_def Let_def split: option.splits)

lemma applySmoothing_keypoints: "keypoints (fst (applySmoothing st raw)) = keypoints raw"
  by (simp add: applySmoothing_def buildSmoothed_def Let_def split: option.splits)

lemma run_snoc: "run (evs @ [ev]) = step (run evs) ev"
  by (simp add: run_def)

lemma run_Nil: "run [] = initial_system"
  by (simp add: run_def)

lemma run_invariant:
  assumes "P initial_system" and "\<And>sys ev. P sys \<Longrightarrow> P (step sys ev)"
  shows "P (run evs)"
proof (induction evs rule: rev_induct)
  case Nil
  show ?case by (simp add: run_Nil assms(1))
next
  case (snoc ev evs)
  then show ?case by (simp add: run_snoc assms(2))
qed

lemma applySmoothing_keeps:
  "smoothingFactor (snd (applySmoothing st raw)) = smoothingFactor st"
  "faceTimeoutMs (snd (applySmoothing st raw)) = faceTimeoutMs st"
  "detectionInterval (snd (applySmoothing st raw)) = detectionInterval st"
  "running (snd (applySmoothing st raw)) = running st"
  "modelReady (snd (applySmoothing st raw)) = modelReady st"
  "frameCount (snd (applySmoothing st raw)) = frameCount st"
  by (simp_all add: applySmoothing_def Let_def split: option.splits)

lemma renderLoop_keeps:
  "smoothingFactor (app (snd (renderLoop sys now))) = smoothingFactor (app sys)"
  "faceTimeoutMs (app (snd (renderLoop sys now))) = faceTimeoutMs (app sys)"
  "detectionInterval (app (snd (renderLoop sys now))) = detectionInterval (app sys)"
  "smooth (app (snd (renderLoop sys now))) = smooth (app sys)"
  "lastRawTransform (app (snd (renderLoop sys now))) = lastRawTransform (app sys)"
  "lastFaceTime (app (snd (renderLoop sys now))) = lastFaceTime (app sys)"
  "running (app (snd (renderLoop sys now))) = running (app sys)"
  "modelReady (app (snd (renderLoop sys now))) = modelReady (app sys)"
  "facejs (snd (renderLoop sys now)) = facejs sys"
  by (simp_all add: renderLoop_def Let_def runDetection_call_def)

lemma resume_keeps:
  "smoothingFactor (app (runDetection_resume sys v res now)) = smoothingFactor (app sys)"
  "faceTimeoutMs (app (runDetection_resume sys v res now)) = faceTimeoutMs (app sys)"
  "detectionInterval (app (runDetection_resume sys v res now)) = detectionInterval (app sys)"
  "running (app (runDetection_resume sys v res now)) = running (app sys)"
  "modelReady (app (runDetection_resume sys v res now)) = modelReady (app sys)"
  "frameCount (app (runDetection_resume sys v res now)) = frameCount (app sys)"
  by (simp_all add: runDetection_resume_def split_beta applySmoothing_keeps
      split: option.splits sum.splits)

lemma step_constants:
  "smoothingFactor (app (step sys ev)) = smoothingFactor (app sys) \<and>
   faceTimeoutMs (app (step sys ev)) = faceTimeoutMs (app sys) \<and>
   detectionInterval (app (step sys ev)) = detectionInterval (app sys)"
  by (cases ev) (simp_all add: step_def renderLoop_keeps resume_keeps)

lemma run_constants:
  "smoothingFactor (app (run evs)) = 0.35 \<and>
   faceTimeoutMs (app (run evs)) = 500 \<and>
   detectionInterval (app (run evs)) = 2"
  by (rule run_invariant) (simp_all add: initial_system_def initial_state_def step_constants)

lemma demo_detect:
  "detectFace \<lparr> hasDetector = True, lastVideoTime = - 1, attempts = 0, successes = 0, errors = 0 \<rparr>
      demo_video (Faces [demo_landmarks]) =
     (Some demo_keypoints,
      \<lparr> hasDetector = True, lastVideoTime = 0.5, attempts = 1, successes = 1, errors = 0 \<rparr>)"
  by (simp add: detectFace_def demo_video_def demo_landmarks_def demo_keypoints_def map_update)

lemma demo_keypoints_len: "length demo_keypoints = 478"
  by (simp add: demo_keypoints_def)

lemma demo_keypoints_nth:
  "demo_keypoints ! 1 = \<lparr> kp_x = 320, kp_y = 240, kp_z = Some 0 \<rparr>"
  "demo_keypoints ! Suc 0 = \<lparr> kp_x = 320, kp_y = 240, kp_z = Some 0 \<rparr>"
  "demo_keypoints ! 234 = \<lparr> kp_x = 160, kp_y = 240, kp_z = Some 0 \<rparr>"
  "demo_keypoints ! 454 = \<lparr> kp_x = 400, kp_y = 240, kp_z = Some 0 \<rparr>"
  "demo_keypoints ! 468 = \<lparr> kp_x = 280, kp_y = 240, kp_z = Some 0 \<rparr>"
  "demo_keypoints ! 473 = \<lparr> kp_x = 360, kp_y = 240, kp_z = Some 8 \<rparr>"
  by (simp_all add: demo_keypoints_def)

lemma demo_extract: "extractFaceTransform demo_keypoints = Inr demo_raw"
  by (simp add: extract_from_eyes demo_keypoints_len demo_keypoints_nth Let_def dist_kp_axis
      midpoint_def atan2_def clamp_def demo_raw_def)

lemma run_demo_tracking:
  "run demo_tracking =
     \<lparr> app = initial_state\<lparr> running := True, frameCount := 2, smooth := Some demo_smooth,
                            lastFaceTime := 1050, lastRawTransform := Some demo_pose,
                            modelReady := True, glassesAssets := [demo_asset] \<rparr>,
       facejs = \<lparr> hasDetector = True, lastVideoTime = 0.5, attempts = 1, successes = 1,
                  errors = 0 \<rparr>,
       inflight = 0 \<rparr>"
  by (simp add: run_def demo_tracking_def step_def initial_system_def initial_state_def
      renderLoop_def runDetection_call_def runDetection_resume_def Let_def demo_detect
      demo_extract applySmoothing_def buildSmoothed_def demo_raw_def demo_pose_def
      demo_smooth_def)

section \<open>The temporal smoother\<close>

text \<open>
  Claim C3. With an empty smoothing state (as at the start and after stopCamera) a call
  of applySmoothing returns the scalar fields of the raw pose unchanged and keeps them;
  in every reachable state the blend factor is 0.35, and a call with a smoothing state
  \<open>s\<close> replaces each kept scalar by \<open>s + (raw - s) * 0.35\<close> and returns those values; the
  keypoints of the returned descriptor are always those of the raw pose.
\<close>

theorem applySmoothing_seed_then_blend:
  "(smooth st = None \<longrightarrow>
      applySmoothing st raw =
        (\<lparr> center = \<lparr> kp_x = kp_x (center raw), kp_y = kp_y (center raw), kp_z = None \<rparr>,
           eyeDistance = eyeDistance raw, roll = roll raw, yaw = yaw raw,
           keypoints = keypoints raw \<rparr>,
         st\<lparr> smooth := Some \<lparr> centerX = kp_x (center raw), centerY = kp_y (center raw),
                               sm_eyeDistance = eyeDistance raw, sm_roll = roll raw,
                               sm_yaw = yaw raw, sm_keypoints = keypoints raw \<rparr> \<rparr>)) \<and>
   (smooth (app (run evs)) = Some s \<longrightarrow>
      applySmoothing (app (run evs)) raw =
        (let cx = centerX s + (kp_x (center raw) - centerX s) * 0.35;
             cy = centerY s + (kp_y (center raw) - centerY s) * 0.35;
             ed = sm_eyeDistance s + (eyeDistance raw - sm_eyeDistance s) * 0.35;
             rl = sm_roll s + (roll raw - sm_roll s) * 0.35;
             yw = sm_yaw s + (yaw raw - sm_yaw s) * 0.35
         in (\<lparr> center = \<lparr> kp_x = cx, kp_y = cy, kp_z = None \<rparr>, eyeDistance = ed,
                roll = rl, yaw = yw, keypoints = keypoints raw \<rparr>,
             (app (run evs))\<lparr> smooth := Some \<lparr> centerX = cx, centerY = cy,
                 sm_eyeDistance = ed, sm_roll = rl, sm_yaw = yw,
                 sm_keypoints = keypoints raw \<rparr> \<rparr>))) \<and>
   keypoints (fst (applySmoothing st raw)) = keypoints raw \<and>
   smoothingFactor (app (run evs)) = 0.35 \<and>
   smooth (app initial_system) = None \<and>
   smooth (app (step sys StopCamera)) = None"
proof (intro conjI impI)
  assume "smooth st = None"
  then show "applySmoothing st raw =
        (\<lparr> center = \<lparr> kp_x = kp_x (center raw), kp_y = kp_y (center raw), kp_z = None \<rparr>,
           eyeDistance = eyeDistance raw, roll = roll raw, yaw = yaw raw,
           keypoints = keypoints raw \<rparr>,
         st\<lparr> smooth := Some \<lparr> centerX = kp_x (center raw), centerY = kp_y (center raw),
                               sm_eyeDistance = eyeDistance raw, sm_roll = roll raw,
                               sm_yaw = yaw raw, sm_keypoints = keypoints raw \<rparr> \<rparr>)"
    by (rule applySmoothing_seed)
next
  assume "smooth (app (run evs)) = Some s"
  from applySmoothing_blend[OF this, of raw]
  show "applySmoothing (app (run evs)) raw =
        (let cx = centerX s + (kp_x (center raw) - centerX s) * 0.35;
             cy = centerY s + (kp_y (center raw) - centerY s) * 0.35;
             ed = sm_eyeDistance s + (eyeDistance raw - sm_eyeDistance s) * 0.35;
             rl = sm_roll s + (roll raw - sm_roll s) * 0.35;
             yw = sm_yaw s + (yaw raw - sm_yaw s) * 0.35
         in (\<lparr> center = \<lparr> kp_x = cx, kp_y = cy, kp_z = None \<rparr>, eyeDistance = ed,
                roll = rl, yaw = yw, keypoints = keypoints raw \<rparr>,
             (app (run evs))\<lparr> smooth := Some \<lparr> centerX = cx, centerY = cy,
                 sm_eyeDistance = ed, sm_roll = rl, sm_yaw = yw,
                 sm_keypoints = keypoints raw \<rparr> \<rparr>))"
    by (simp add: run_constants Let_def)
next
  show "keypoints (fst (applySmoothing st raw)) = keypoints raw"
    by (rule applySmoothing_keypoints)
next
  show "smoothingFactor (app (run evs)) = 0.35"
    by (simp add: run_constants)
next
  show "smooth (app initial_system) = None"
    by (simp add: initial_system_def initial_state_def)
next
  show "smooth (app (step sys StopCamera)) = None"
    by (simp add: step_def)
qed

theorem applySmoothing_seed_then_blend_witness:
  "smooth (app initial_system) = None \<and>
   fst (applySmoothing (app initial_system)
          \<lparr> center = \<lparr> kp_x = 340, kp_y = 260, kp_z = None \<rparr>, eyeDistance = 100,
            roll = 0.2, yaw = 1, keypoints = [] \<rparr>) =
     \<lparr> center = \<lparr> kp_x = 340, kp_y = 260, kp_z = None \<rparr>, eyeDistance = 100,
       roll = 0.2, yaw = 1, keypoints = [] \<rparr> \<and>
   smooth (app (run demo_tracking)) = Some demo_smooth \<and>
   fst (applySmoothing (app (run demo_tracking))
          \<lparr> center = \<lparr> kp_x = 340, kp_y = 260, kp_z = None \<rparr>, eyeDistance = 100,
            roll = 0.2, yaw = 1, keypoints = [] \<rparr>) =
     \<lparr> center = \<lparr> kp_x = 327, kp_y = 247, kp_z = None \<rparr>, eyeDistance = 87,
       roll = 0.07, yaw = 1583 / 3000, keypoints = [] \<rparr>"
  using applySmoothing_seed_then_blend[of "app initial_system"
          "\<lparr> center = \<lparr> kp_x = 340, kp_y = 260, kp_z = None \<rparr>, eyeDistance = 100,
            roll = 0.2, yaw = 1, keypoints = [] \<rparr>" demo_tracking demo_smooth]
  by (simp add: run_demo_tracking initial_system_def initial_state_def demo_smooth_def Let_def)

subsection \<open>Convergence under a constant raw pose\<close>

lemma seq_snoc:
  "applySmoothing_seq st (raws @ [raw]) = snd (applySmoothing (applySmoothing_seq st raws) raw)"
  by (simp add: applySmoothing_seq_def)


lemma seq_factor: "smoothingFactor (applySmoothing_seq st raws) = smoothingFactor st"
  by (induction raws rule: rev_induct) (simp_all add: seq_snoc applySmoothing_keeps, simp add: applySmoothing_seq_def)










lemma binary64_zero [simp]: "binary64 0 = 0"
  by (simp add: binary64_def)













subsection \<open>The range of yaw\<close>

lemma clamp_range: "- 1 \<le> clamp v (- 1) 1 \<and> clamp v (- 1) 1 \<le> 1"
  by (simp add: clamp_def)

lemma extract_yaw_range:
  assumes "extractFaceTransform kps = Inr t"
  shows "- 1 \<le> yaw t \<and> yaw t \<le> 1"
  using assms clamp_range
  by (auto simp: extractFaceTransform_def kp_at_def bind_err_def Let_def js_div_def
      split: option.splits sum.splits if_splits)

lemma lerp_range:
  assumes "- 1 \<le> s" "s \<le> 1" "- 1 \<le> r" "r \<le> 1" "0 \<le> a" "a \<le> 1"
  shows "- 1 \<le> lerp s r a \<and> lerp s r a \<le> 1"
proof -
  have eq: "lerp s r a = (1 - a) * s + a * r"
    by (simp add: lerp_def algebra_simps)
  have "(1 - a) * s \<le> (1 - a) * 1" "a * r \<le> a * 1"
    using assms by (intro mult_left_mono; simp)+
  moreover have "(1 - a) * (- 1) \<le> (1 - a) * s" "a * (- 1) \<le> a * r"
    using assms by (intro mult_left_mono; simp)+
  ultimately show ?thesis
    unfolding eq by (simp add: algebra_simps)
qed

lemma applySmoothing_yaw_range:
  assumes a: "0 < smoothingFactor st" "smoothingFactor st \<le> 1"
    and kept: "\<And>s. smooth st = Some s \<Longrightarrow> - 1 \<le> sm_yaw s \<and> sm_yaw s \<le> 1"
    and raw: "- 1 \<le> yaw raw" "yaw raw \<le> 1"
  shows "- 1 \<le> yaw (fst (applySmoothing st raw)) \<and> yaw (fst (applySmoothing st raw)) \<le> 1"
    and "\<And>s. smooth (snd (applySmoothing st raw)) = Some s \<Longrightarrow> - 1 \<le> sm_yaw s \<and> sm_yaw s \<le> 1"
proof -
  have both: "- 1 \<le> yaw (fst (applySmoothing st raw)) \<and> yaw (fst (applySmoothing st raw)) \<le> 1"
  proof (cases "smooth st")
    case None
    then show ?thesis using raw by (simp add: applySmoothing_seed)
  next
    case (Some s)
    from lerp_range[of "sm_yaw s" "yaw raw" "smoothingFactor st"] kept[OF Some] raw a
    show ?thesis
      by (simp add: applySmoothing_blend[OF Some] Let_def lerp_def)
  qed
  then show "- 1 \<le> yaw (fst (applySmoothing st raw)) \<and> yaw (fst (applySmoothing st raw)) \<le> 1" .
  fix s assume "smooth (snd (applySmoothing st raw)) = Some s"
  moreover obtain s' where "smooth (snd (applySmoothing st raw)) = Some s'"
      "fst (applySmoothing st raw) = buildSmoothed s' (keypoints raw)"
    using applySmoothing_kept by blast
  ultimately have "yaw (fst (applySmoothing st raw)) = sm_yaw s"
    by (simp add: buildSmoothed_def)
  with both show "- 1 \<le> sm_yaw s \<and> sm_yaw s \<le> 1" by simp
qed

lemma seq_yaw_range:
  assumes a: "0 < smoothingFactor st" "smoothingFactor st \<le> 1"
    and kept: "\<And>s. smooth st = Some s \<Longrightarrow> - 1 \<le> sm_yaw s \<and> sm_yaw s \<le> 1"
    and raws: "\<And>r. r \<in> set raws \<Longrightarrow> - 1 \<le> yaw r \<and> yaw r \<le> 1"
  shows "smooth (applySmoothing_seq st raws) = Some s \<Longrightarrow> - 1 \<le> sm_yaw s \<and> sm_yaw s \<le> 1"
  using raws
proof (induction raws arbitrary: s rule: rev_induct)
  case Nil
  then show ?case using kept by (simp add: applySmoothing_seq_def)
next
  case (snoc r raws)
  have prev: "\<And>s'. smooth (applySmoothing_seq st raws) = Some s' \<Longrightarrow> - 1 \<le> sm_yaw s' \<and> sm_yaw s' \<le> 1"
    using snoc.IH snoc.prems(2) by simp
  have r: "- 1 \<le> yaw r" "yaw r \<le> 1"
    using snoc.prems(2)[of r] by simp_all
  show ?case
    using applySmoothing_yaw_range(2)[of "applySmoothing_seq st raws" r s] prev r a snoc.prems(1)
    by (simp add: seq_snoc seq_factor)
qed

lemma resume_none:
  assumes "fst (detectFace (facejs sys) v res) = None"
  shows "app (runDetection_resume sys v res now) = (app sys)\<lparr> detecting := False \<rparr>"
  using assms by (simp add: runDetection_resume_def split_beta)

lemma resume_throw:
  assumes "fst (detectFace (facejs sys) v res) = Some kps" and "extractFaceTransform kps = Inl e"
  shows "app (runDetection_resume sys v res now) = (app sys)\<lparr> detecting := False \<rparr>"
  using assms by (simp add: runDetection_resume_def split_beta)

lemma resume_some:
  assumes "fst (detectFace (facejs sys) v res) = Some kps" and "extractFaceTransform kps = Inr raw"
  shows "app (runDetection_resume sys v res now) =
     (snd (applySmoothing (app sys) raw))
       \<lparr> lastRawTransform := Some (fst (applySmoothing (app sys) raw)),
         lastFaceTime := now, detecting := False \<rparr>"
  using assms by (simp add: runDetection_resume_def split_beta)

lemma resume_cases:
  obtains
    (none) "fst (detectFace (facejs sys) v res) = None"
  | (throw) kps e where "fst (detectFace (facejs sys) v res) = Some kps"
      "extractFaceTransform kps = Inl e"
  | (some) kps raw where "fst (detectFace (facejs sys) v res) = Some kps"
      "extractFaceTransform kps = Inr raw"
proof (cases "fst (detectFace (facejs sys) v res)")
  case None
  then show ?thesis by (rule none)
next
  case (Some kps)
  then show ?thesis
    by (cases "extractFaceTransform kps") (auto intro: throw some)
qed

lemma resume_yaw_range:
  assumes a: "0 < smoothingFactor (app sys)" "smoothingFactor (app sys) \<le> 1"
    and kept: "\<And>s. smooth (app sys) = Some s \<Longrightarrow> - 1 \<le> sm_yaw s \<and> sm_yaw s \<le> 1"
    and last: "\<And>p. lastRawTransform (app sys) = Some p \<Longrightarrow> - 1 \<le> yaw p \<and> yaw p \<le> 1"
  shows "(\<forall>s. smooth (app (runDetection_resume sys v res now)) = Some s \<longrightarrow>
            - 1 \<le> sm_yaw s \<and> sm_yaw s \<le> 1) \<and>
         (\<forall>p. lastRawTransform (app (runDetection_resume sys v res now)) = Some p \<longrightarrow>
            - 1 \<le> yaw p \<and> yaw p \<le> 1)"
proof (cases rule: resume_cases[of sys v res])
  case none
  then show ?thesis using kept last by (simp add: resume_none)
next
  case (throw kps e)
  then show ?thesis using kept last by (simp add: resume_throw)
next
  case (some kps raw)
  have r: "- 1 \<le> yaw raw" "yaw raw \<le> 1"
    using extract_yaw_range[OF some(2)] by simp_all
  show ?thesis
    using applySmoothing_yaw_range[of "app sys" raw, OF a kept r]
    by (simp add: resume_some[OF some])
qed

lemma step_yaw_range:
  assumes "smoothingFactor (app sys) = 0.35"
    and "\<forall>s. smooth (app sys) = Some s \<longrightarrow> - 1 \<le> sm_yaw s \<and> sm_yaw s \<le> 1"
    and "\<forall>p. lastRawTransform (app sys) = Some p \<longrightarrow> - 1 \<le> yaw p \<and> yaw p \<le> 1"
  shows "(\<forall>s. smooth (app (step sys ev)) = Some s \<longrightarrow> - 1 \<le> sm_yaw s \<and> sm_yaw s \<le> 1) \<and>
         (\<forall>p. lastRawTransform (app (step sys ev)) = Some p \<longrightarrow> - 1 \<le> yaw p \<and> yaw p \<le> 1)"
proof (cases ev)
  case (DetectionDone v res now)
  show ?thesis
    using resume_yaw_range[of sys v res now] assms DetectionDone
    by (simp add: step_def)
qed (use assms in \<open>simp_all add: step_def renderLoop_keeps\<close>)

lemma run_yaw_range:
  "smoothingFactor (app (run evs)) = 0.35 \<and>
   (\<forall>s. smooth (app (run evs)) = Some s \<longrightarrow> - 1 \<le> sm_yaw s \<and> sm_yaw s \<le> 1) \<and>
   (\<forall>p. lastRawTransform (app (run evs)) = Some p \<longrightarrow> - 1 \<le> yaw p \<and> yaw p \<le> 1)"
proof (rule run_invariant)
  show "smoothingFactor (app initial_system) = 0.35 \<and>
   (\<forall>s. smooth (app initial_system) = Some s \<longrightarrow> - 1 \<le> sm_yaw s \<and> sm_yaw s \<le> 1) \<and>
   (\<forall>p. lastRawTransform (app initial_system) = Some p \<longrightarrow> - 1 \<le> yaw p \<and> yaw p \<le> 1)"
    by (simp add: initial_system_def initial_state_def)
next
  fix sys :: system and ev :: event
  assume "smoothingFactor (app sys) = 0.35 \<and>
   (\<forall>s. smooth (app sys) = Some s \<longrightarrow> - 1 \<le> sm_yaw s \<and> sm_yaw s \<le> 1) \<and>
   (\<forall>p. lastRawTransform (app sys) = Some p \<longrightarrow> - 1 \<le> yaw p \<and> yaw p \<le> 1)"
  then show "smoothingFactor (app (step sys ev)) = 0.35 \<and>
   (\<forall>s. smooth (app (step sys ev)) = Some s \<longrightarrow> - 1 \<le> sm_yaw s \<and> sm_yaw s \<le> 1) \<and>
   (\<forall>p. lastRawTransform (app (step sys ev)) = Some p \<longrightarrow> - 1 \<le> yaw p \<and> yaw p \<le> 1)"
    using step_yaw_range[of sys ev] step_constants[of sys ev] by simp
qed

text \<open>
  Claim C10. The yaw of every pose descriptor lies in [-1, 1]: that of every descriptor
  extractFaceTransform returns; that of every descriptor applySmoothing returns after any
  sequence of calls with raw yaws in [-1, 1], from a state that is empty or holds a yaw
  in [-1, 1], with any blend factor in (0, 1]; and, in the running program, that of the
  pose kept in \<^verbatim>\<open>state.lastRawTransform\<close> and of the smoothing state after any sequence
  of events.
\<close>

theorem yaw_always_in_range:
  "(extractFaceTransform kps = Inr t \<longrightarrow> - 1 \<le> yaw t \<and> yaw t \<le> 1) \<and>
   (0 < smoothingFactor st \<and> smoothingFactor st \<le> 1 \<and>
    (\<forall>s. smooth st = Some s \<longrightarrow> - 1 \<le> sm_yaw s \<and> sm_yaw s \<le> 1) \<and>
    (\<forall>r \<in> set (raws @ [raw]). - 1 \<le> yaw r \<and> yaw r \<le> 1) \<longrightarrow>
      - 1 \<le> yaw (fst (applySmoothing (applySmoothing_seq st raws) raw)) \<and>
      yaw (fst (applySmoothing (applySmoothing_seq st raws) raw)) \<le> 1) \<and>
   (\<forall>p. lastRawTransform (app (run evs)) = Some p \<longrightarrow> - 1 \<le> yaw p \<and> yaw p \<le> 1) \<and>
   (\<forall>s. smooth (app (run evs)) = Some s \<longrightarrow> - 1 \<le> sm_yaw s \<and> sm_yaw s \<le> 1)"
proof (intro conjI impI)
  assume "extractFaceTransform kps = Inr t"
  then show "- 1 \<le> yaw t" "yaw t \<le> 1"
    using extract_yaw_range by blast+
next
  assume h: "0 < smoothingFactor st \<and> smoothingFactor st \<le> 1 \<and>
    (\<forall>s. smooth st = Some s \<longrightarrow> - 1 \<le> sm_yaw s \<and> sm_yaw s \<le> 1) \<and>
    (\<forall>r \<in> set (raws @ [raw]). - 1 \<le> yaw r \<and> yaw r \<le> 1)"
  have kept: "\<And>s. smooth (applySmoothing_seq st raws) = Some s \<Longrightarrow> - 1 \<le> sm_yaw s \<and> sm_yaw s \<le> 1"
    using seq_yaw_range[of st raws] h by simp
  have "- 1 \<le> yaw (fst (applySmoothing (applySmoothing_seq st raws) raw)) \<and>
      yaw (fst (applySmoothing (applySmoothing_seq st raws) raw)) \<le> 1"
    using applySmoothing_yaw_range(1)[of "applySmoothing_seq st raws" raw] kept h
    by (simp add: seq_factor)
  then show "- 1 \<le> yaw (fst (applySmoothing (applySmoothing_seq st raws) raw))"
    "yaw (fst (applySmoothing (applySmoothing_seq st raws) raw)) \<le> 1"
    by simp_all
next
  show "\<forall>p. lastRawTransform (app (run evs)) = Some p \<longrightarrow> - 1 \<le> yaw p \<and> yaw p \<le> 1"
    using run_yaw_range by blast
next
  show "\<forall>s. smooth (app (run evs)) = Some s \<longrightarrow> - 1 \<le> sm_yaw s \<and> sm_yaw s \<le> 1"
    using run_yaw_range by blast
qed

theorem yaw_always_in_range_witness:
  "extractFaceTransform demo_keypoints = Inr demo_raw \<and>
   - 1 \<le> yaw demo_raw \<and> yaw demo_raw \<le> 1 \<and>
   0 < smoothingFactor (app (run demo_tracking)) \<and>
   smoothingFactor (app (run demo_tracking)) \<le> 1 \<and>
   smooth (app (run demo_tracking)) = Some demo_smooth \<and>
   - 1 \<le> yaw (fst (applySmoothing
                 (applySmoothing_seq (app (run demo_tracking)) [demo_raw\<lparr> yaw := 1 \<rparr>])
                 (demo_raw\<lparr> yaw := - 1 \<rparr>))) \<and>
   yaw (fst (applySmoothing
                 (applySmoothing_seq (app (run demo_tracking)) [demo_raw\<lparr> yaw := 1 \<rparr>])
                 (demo_raw\<lparr> yaw := - 1 \<rparr>))) \<le> 1 \<and>
   lastRawTransform (app (run demo_tracking)) = Some demo_pose \<and>
   - 1 \<le> yaw demo_pose \<and> yaw demo_pose \<le> 1"
  using yaw_always_in_range[of demo_keypoints demo_raw "app (run demo_tracking)"
          "[demo_raw\<lparr> yaw := 1 \<rparr>]" "demo_raw\<lparr> yaw := - 1 \<rparr>" demo_tracking]
  by (simp add: demo_extract run_demo_tracking initial_state_def demo_smooth_def demo_raw_def
      demo_pose_def)

section \<open>Detection and the render loop\<close>

lemma renderLoop_frame:
  assumes "running (app sys)"
  shows "fst (renderLoop sys now) =
     Some (case lastRawTransform (app sys) of
             None \<Rightarrow> \<lparr> overlay = None, glasses = None, debug_landmarks = None \<rparr>
           | Some t \<Rightarrow>
               if now - lastFaceTime (app sys) < faceTimeoutMs (app sys) then
                 \<lparr> overlay = Some t,
                   glasses =
                     (if currentFrameIndex (app sys) < length (glassesAssets (app sys)) then
                        Some (drawGlasses
                                (asset_halves (glassesAssets (app sys) ! currentFrameIndex (app sys)))
                                t (img (glassesAssets (app sys) ! currentFrameIndex (app sys)))
                                (frameScaleMultiplier (app sys)) (verticalOffset (app sys)))
                      else None),
                   debug_landmarks = (if debugMode (app sys) then Some (keypoints t) else None) \<rparr>
               else \<lparr> overlay = None, glasses = None, debug_landmarks = None \<rparr>)"
  using assms
  by (simp add: renderLoop_def Let_def runDetection_call_def split: option.splits)

lemma renderLoop_stopped: "\<not> running (app sys) \<Longrightarrow> renderLoop sys now = (None, sys)"
  by (simp add: renderLoop_def)

lemma run_append: "run (evs @ evs') = foldl step (run evs) evs'"
  by (simp add: run_def)

lemma run_demo_restart:
  "run demo_restart =
     \<lparr> app = initial_state\<lparr> running := True, frameCount := 0, smooth := None,
                            lastFaceTime := 1050, lastRawTransform := None,
                            modelReady := True, glassesAssets := [demo_asset] \<rparr>,
       facejs = \<lparr> hasDetector = True, lastVideoTime = 0.5, attempts = 1, successes = 1,
                  errors = 0 \<rparr>,
       inflight = 0 \<rparr>"
  by (simp add: demo_restart_def run_append run_demo_tracking step_def initial_state_def)

text \<open>
  Claim C5, as stated, fails: the pose is stamped at 1050 ms, the camera is stopped and
  started again, and at the tick of 1300 ms the predicate
  \<open>now - lastFaceTime < faceTimeoutMs\<close> holds (250 < 500) while nothing is drawn: stopCamera
  cleared the stored pose and renderLoop asks for the pose before it asks for the time.
\<close>

theorem overlay_not_time_alone_counterexample:
  "1300 - lastFaceTime (app (run demo_restart)) < faceTimeoutMs (app (run demo_restart)) \<and>
   running (app (run demo_restart)) \<and>
   fst (renderLoop (run demo_restart) 1300) =
     Some \<lparr> overlay = None, glasses = None, debug_landmarks = None \<rparr>"
  by (simp add: run_demo_restart initial_state_def renderLoop_frame)

text \<open>
  Claim C5, amended. On every render tick of a running session the overlay branch is
  taken exactly when a pose is stored and \<open>now - lastFaceTime < faceTimeoutMs\<close>; the
  decision is recomputed from the state at each tick (the state has no visibility flag).
  What is drawn then is the stored pose itself, handed to drawGlasses when the selected
  asset exists; otherwise nothing of the overlay is drawn. A tick changes neither the
  stored pose nor the smoothing state nor the timestamp. In every reachable state
  faceTimeoutMs is 500, so a stored pose stamped at \<open>t\<close> is shown at \<open>t + 499\<close> and
  hidden at \<open>t + 500\<close> and \<open>t + 501\<close>.
\<close>

theorem overlay_visibility:
  "(running (app sys) \<longrightarrow>
      (\<exists>fr. fst (renderLoop sys now) = Some fr \<and>
         (overlay fr \<noteq> None \<longleftrightarrow>
            lastRawTransform (app sys) \<noteq> None \<and>
            now - lastFaceTime (app sys) < faceTimeoutMs (app sys)) \<and>
         (overlay fr \<noteq> None \<longrightarrow>
            overlay fr = lastRawTransform (app sys) \<and>
            glasses fr =
              (if currentFrameIndex (app sys) < length (glassesAssets (app sys)) then
                 Some (drawGlasses
                         (asset_halves (glassesAssets (app sys) ! currentFrameIndex (app sys)))
                         (the (lastRawTransform (app sys)))
                         (img (glassesAssets (app sys) ! currentFrameIndex (app sys)))
                         (frameScaleMultiplier (app sys)) (verticalOffset (app sys)))
               else None)) \<and>
         (overlay fr = None \<longrightarrow> glasses fr = None \<and> debug_landmarks fr = None))) \<and>
   lastRawTransform (app (snd (renderLoop sys now))) = lastRawTransform (app sys) \<and>
   smooth (app (snd (renderLoop sys now))) = smooth (app sys) \<and>
   lastFaceTime (app (snd (renderLoop sys now))) = lastFaceTime (app sys) \<and>
   faceTimeoutMs (app (run evs)) = 500 \<and>
   (running (app (run evs)) \<and> lastRawTransform (app (run evs)) = Some p \<longrightarrow>
      (\<exists>shown hidden0 hidden1.
         fst (renderLoop (run evs) (lastFaceTime (app (run evs)) + 499)) = Some shown \<and>
         overlay shown = Some p \<and>
         fst (renderLoop (run evs) (lastFaceTime (app (run evs)) + 500)) = Some hidden0 \<and>
         overlay hidden0 = None \<and> glasses hidden0 = None \<and>
         fst (renderLoop (run evs) (lastFaceTime (app (run evs)) + 501)) = Some hidden1 \<and>
         overlay hidden1 = None \<and> glasses hidden1 = None))"
proof (intro conjI impI)
  assume "running (app sys)"
  then show "\<exists>fr. fst (renderLoop sys now) = Some fr \<and>
         (overlay fr \<noteq> None \<longleftrightarrow>
            lastRawTransform (app sys) \<noteq> None \<and>
            now - lastFaceTime (app sys) < faceTimeoutMs (app sys)) \<and>
         (overlay fr \<noteq> None \<longrightarrow>
            overlay fr = lastRawTransform (app sys) \<and>
            glasses fr =
              (if currentFrameIndex (app sys) < length (glassesAssets (app sys)) then
                 Some (drawGlasses
                         (asset_halves (glassesAssets (app sys) ! currentFrameIndex (app sys)))
                         (the (lastRawTransform (app sys)))
                         (img (glassesAssets (app sys) ! currentFrameIndex (app sys)))
                         (frameScaleMultiplier (app sys)) (verticalOffset (app sys)))
               else None)) \<and>
         (overlay fr = None \<longrightarrow> glasses fr = None \<and> debug_landmarks fr = None)"
    by (simp add: renderLoop_frame split: option.splits)
next
  assume "running (app (run evs)) \<and> lastRawTransform (app (run evs)) = Some p"
  then show "\<exists>shown hidden0 hidden1.
         fst (renderLoop (run evs) (lastFaceTime (app (run evs)) + 499)) = Some shown \<and>
         overlay shown = Some p \<and>
         fst (renderLoop (run evs) (lastFaceTime (app (run evs)) + 500)) = Some hidden0 \<and>
         overlay hidden0 = None \<and> glasses hidden0 = None \<and>
         fst (renderLoop (run evs) (lastFaceTime (app (run evs)) + 501)) = Some hidden1 \<and>
         overlay hidden1 = None \<and> glasses hidden1 = None"
    by (simp add: renderLoop_frame run_constants)
qed (simp_all add: renderLoop_keeps run_constants)

theorem overlay_visibility_witness:
  "running (app (run demo_tracking)) \<and>
   lastRawTransform (app (run demo_tracking)) = Some demo_pose \<and>
   lastFaceTime (app (run demo_tracking)) = 1050 \<and>
   (\<exists>fr. fst (renderLoop (run demo_tracking) 1549) = Some fr \<and> overlay fr = Some demo_pose \<and>
      glasses fr = Some (drawGlasses (asset_halves demo_asset) demo_pose (img demo_asset) 1 0)) \<and>
   fst (renderLoop (run demo_tracking) 1551) =
     Some \<lparr> overlay = None, glasses = None, debug_landmarks = None \<rparr>"
  using overlay_visibility[of "run demo_tracking" 1549 demo_tracking demo_pose]
    overlay_visibility[of "run demo_tracking" 1551 demo_tracking demo_pose]
  by (simp add: run_demo_tracking initial_state_def renderLoop_frame)

lemma run_demo_awaiting:
  "run demo_awaiting =
     \<lparr> app = initial_state\<lparr> running := True, frameCount := 2, modelReady := True,
                            detecting := True, glassesAssets := [demo_asset] \<rparr>,
       facejs = \<lparr> hasDetector = True, lastVideoTime = - 1, attempts = 0, successes = 0,
                  errors = 0 \<rparr>,
       inflight = 1 \<rparr>"
  by (simp add: run_def demo_awaiting_def step_def initial_system_def initial_state_def
      renderLoop_def runDetection_call_def Let_def)

lemma detectFace_none:
  assumes "\<not> hasDetector fm \<or> readyState v < 2 \<or> currentTime v = lastVideoTime fm \<or>
           res = NoFaces \<or> res = Throws \<or> res = Faces []"
  shows "fst (detectFace fm v res) = None"
  using assms by (auto simp: detectFace_def Let_def)

lemma renderLoop_same_frame:
  assumes "app sys' = (app sys)\<lparr> detecting := d \<rparr>"
  shows "fst (renderLoop sys' now) = fst (renderLoop sys now)"
proof (cases "running (app sys)")
  case True
  then show ?thesis using assms by (simp add: renderLoop_frame split: option.splits)
next
  case False
  then show ?thesis using assms by (simp add: renderLoop_stopped)
qed

text \<open>
  Claim C9. When detectFace returns nothing (and it does so without a detector, on a
  video that is not ready, on a duplicate frame, when no face is found and when the
  detector throws), the continuation of runDetection leaves the state of main.js as it
  was but for the guard flag: timestamp, smoothing state and stored pose are unchanged,
  and every later render tick draws what it would have drawn. When detectFace returns a
  keypoint sequence that reaches index 454, the continuation stores the result of
  applySmoothing on the extracted pose and stamps \<open>lastFaceTime\<close> with the current time:
  from an empty smoothing state the kept scalars and the stored pose are those of the
  extracted pose, and from a smoothing state \<open>s\<close> every kept scalar and every scalar of
  the stored pose is \<open>s + (raw - s) * smoothingFactor\<close>.
\<close>

theorem detection_outcome_effect:
  "(fst (detectFace (facejs sys) v res) = None \<longrightarrow>
      app (runDetection_resume sys v res now) = (app sys)\<lparr> detecting := False \<rparr> \<and>
      lastFaceTime (app (runDetection_resume sys v res now)) = lastFaceTime (app sys) \<and>
      smooth (app (runDetection_resume sys v res now)) = smooth (app sys) \<and>
      lastRawTransform (app (runDetection_resume sys v res now)) = lastRawTransform (app sys) \<and>
      fst (renderLoop (runDetection_resume sys v res now) later) = fst (renderLoop sys later)) \<and>
   (\<not> hasDetector fm \<or> readyState v < 2 \<or> currentTime v = lastVideoTime fm \<or>
    res = NoFaces \<or> res = Throws \<or> res = Faces [] \<longrightarrow>
      fst (detectFace fm v res) = None) \<and>
   (fst (detectFace (facejs sys) v res) = Some kps \<and> RIGHT_FACE_EDGE < length kps \<longrightarrow>
      (\<exists>raw. extractFaceTransform kps = Inr raw \<and>
         smooth (app (runDetection_resume sys v res now)) =
           smooth (snd (applySmoothing (app sys) raw)) \<and>
         smooth (app (runDetection_resume sys v res now)) \<noteq> None \<and>
         lastRawTransform (app (runDetection_resume sys v res now)) =
           Some (fst (applySmoothing (app sys) raw)) \<and>
         lastFaceTime (app (runDetection_resume sys v res now)) = now \<and>
         (smooth (app sys) = None \<longrightarrow>
            smooth (app (runDetection_resume sys v res now)) =
              Some \<lparr> centerX = kp_x (center raw), centerY = kp_y (center raw),
                     sm_eyeDistance = eyeDistance raw, sm_roll = roll raw, sm_yaw = yaw raw,
                     sm_keypoints = keypoints raw \<rparr> \<and>
            lastRawTransform (app (runDetection_resume sys v res now)) =
              Some \<lparr> center = \<lparr> kp_x = kp_x (center raw), kp_y = kp_y (center raw),
                                 kp_z = None \<rparr>,
                     eyeDistance = eyeDistance raw, roll = roll raw, yaw = yaw raw,
                     keypoints = keypoints raw \<rparr>) \<and>
         (\<forall>s. smooth (app sys) = Some s \<longrightarrow>
            smooth (app (runDetection_resume sys v res now)) =
              Some \<lparr> centerX = centerX s + (kp_x (center raw) - centerX s) * smoothingFactor (app sys),
                     centerY = centerY s + (kp_y (center raw) - centerY s) * smoothingFactor (app sys),
                     sm_eyeDistance = sm_eyeDistance s +
                       (eyeDistance raw - sm_eyeDistance s) * smoothingFactor (app sys),
                     sm_roll = sm_roll s + (roll raw - sm_roll s) * smoothingFactor (app sys),
                     sm_yaw = sm_yaw s + (yaw raw - sm_yaw s) * smoothingFactor (app sys),
                     sm_keypoints = keypoints raw \<rparr> \<and>
            lastRawTransform (app (runDetection_resume sys v res now)) =
              Some \<lparr> center =
                       \<lparr> kp_x = centerX s + (kp_x (center raw) - centerX s) * smoothingFactor (app sys),
                         kp_y = centerY s + (kp_y (center raw) - centerY s) * smoothingFactor (app sys),
                         kp_z = None \<rparr>,
                     eyeDistance = sm_eyeDistance s +
                       (eyeDistance raw - sm_eyeDistance s) * smoothingFactor (app sys),
                     roll = sm_roll s + (roll raw - sm_roll s) * smoothingFactor (app sys),
                     yaw = sm_yaw s + (yaw raw - sm_yaw s) * smoothingFactor (app sys),
                     keypoints = keypoints raw \<rparr>)))"
  (is "_ \<and> _ \<and> (_ \<longrightarrow> ?success)")
proof (intro conjI impI)
  assume none: "fst (detectFace (facejs sys) v res) = None"
  show "app (runDetection_resume sys v res now) = (app sys)\<lparr> detecting := False \<rparr>"
    by (rule resume_none[OF none])
  then show "lastFaceTime (app (runDetection_resume sys v res now)) = lastFaceTime (app sys)"
    "smooth (app (runDetection_resume sys v res now)) = smooth (app sys)"
    "lastRawTransform (app (runDetection_resume sys v res now)) = lastRawTransform (app sys)"
    by simp_all
  show "fst (renderLoop (runDetection_resume sys v res now) later) = fst (renderLoop sys later)"
    by (rule renderLoop_same_frame[OF resume_none[OF none]])
next
  assume "\<not> hasDetector fm \<or> readyState v < 2 \<or> currentTime v = lastVideoTime fm \<or>
    res = NoFaces \<or> res = Throws \<or> res = Faces []"
  then show "fst (detectFace fm v res) = None"
    by (rule detectFace_none)
next
  assume h: "fst (detectFace (facejs sys) v res) = Some kps \<and> RIGHT_FACE_EDGE < length kps"
  then have "454 < length kps"
    by (simp add: RIGHT_FACE_EDGE_def)
  then obtain raw where raw: "extractFaceTransform kps = Inr raw"
    by (simp add: extract_from_eyes Let_def)
  obtain s where s: "smooth (snd (applySmoothing (app sys) raw)) = Some s"
    using applySmoothing_kept by blast
  from h raw have resumed:
    "app (runDetection_resume sys v res now) =
       (snd (applySmoothing (app sys) raw))
         \<lparr> lastRawTransform := Some (fst (applySmoothing (app sys) raw)),
           lastFaceTime := now, detecting := False \<rparr>"
    by (simp add: resume_some)
  show ?success
  proof (intro exI[of _ raw] conjI impI allI)
    show "extractFaceTransform kps = Inr raw"
      by (rule raw)
  qed (use s in \<open>simp_all add: resumed applySmoothing_seed applySmoothing_blend Let_def\<close>)
qed

lemma demo_detect2:
  "detectFace \<lparr> hasDetector = True, lastVideoTime = 0.5, attempts = 1, successes = 1, errors = 0 \<rparr>
      demo_video2 (Faces [demo_landmarks2]) =
     (Some demo_keypoints2,
      \<lparr> hasDetector = True, lastVideoTime = 0.6, attempts = 2, successes = 2, errors = 0 \<rparr>)"
  by (simp add: detectFace_def demo_video2_def demo_landmarks2_def demo_keypoints2_def map_update)

lemma demo_keypoints2_len: "length demo_keypoints2 = 478"
  by (simp add: demo_keypoints2_def)

lemma demo_keypoints2_nth:
  "demo_keypoints2 ! 1 = \<lparr> kp_x = 320, kp_y = 240, kp_z = Some 0 \<rparr>"
  "demo_keypoints2 ! Suc 0 = \<lparr> kp_x = 320, kp_y = 240, kp_z = Some 0 \<rparr>"
  "demo_keypoints2 ! 234 = \<lparr> kp_x = 160, kp_y = 240, kp_z = Some 0 \<rparr>"
  "demo_keypoints2 ! 454 = \<lparr> kp_x = 480, kp_y = 240, kp_z = Some 0 \<rparr>"
  "demo_keypoints2 ! 468 = \<lparr> kp_x = 320, kp_y = 300, kp_z = Some 0 \<rparr>"
  "demo_keypoints2 ! 473 = \<lparr> kp_x = 440, kp_y = 300, kp_z = Some 60 \<rparr>"
  by (simp_all add: demo_keypoints2_def)

lemma demo_extract2: "extractFaceTransform demo_keypoints2 = Inr demo_raw2"
  by (simp add: extract_from_eyes demo_keypoints2_len demo_keypoints2_nth Let_def dist_kp_axis
      midpoint_def atan2_def clamp_def demo_raw2_def)

lemma run_demo_second_awaiting:
  "run demo_second_awaiting =
     \<lparr> app = initial_state\<lparr> running := True, frameCount := 4, smooth := Some demo_smooth,
                            lastFaceTime := 1050, lastRawTransform := Some demo_pose,
                            modelReady := True, detecting := True,
                            glassesAssets := [demo_asset] \<rparr>,
       facejs = \<lparr> hasDetector = True, lastVideoTime = 0.5, attempts = 1, successes = 1,
                  errors = 0 \<rparr>,
       inflight = 1 \<rparr>"
  by (simp add: demo_second_awaiting_def run_append run_demo_tracking step_def initial_state_def
      renderLoop_def runDetection_call_def Let_def)

theorem detection_outcome_effect_witness:
  "currentTime demo_video = lastVideoTime (facejs (run demo_tracking)) \<and>
   fst (detectFace (facejs (run demo_tracking)) demo_video (Faces [demo_landmarks])) = None \<and>
   app (runDetection_resume (run demo_tracking) demo_video (Faces [demo_landmarks]) 1100) =
     (app (run demo_tracking))\<lparr> detecting := False \<rparr> \<and>
   lastFaceTime (app (runDetection_resume (run demo_tracking) demo_video (Faces [demo_landmarks]) 1100))
     = 1050 \<and>
   fst (detectFace (facejs (run demo_awaiting)) demo_video (Faces [demo_landmarks])) =
     Some demo_keypoints \<and>
   RIGHT_FACE_EDGE < length demo_keypoints \<and>
   smooth (app (run demo_awaiting)) = None \<and>
   smooth (app (runDetection_resume (run demo_awaiting) demo_video (Faces [demo_landmarks]) 1050))
     = Some demo_smooth \<and>
   lastFaceTime (app (runDetection_resume (run demo_awaiting) demo_video (Faces [demo_landmarks]) 1050))
     = 1050 \<and>
   lastRawTransform
     (app (runDetection_resume (run demo_awaiting) demo_video (Faces [demo_landmarks]) 1050)) =
     Some demo_pose \<and>
   fst (detectFace (facejs (run demo_second_awaiting)) demo_video2 (Faces [demo_landmarks2])) =
     Some demo_keypoints2 \<and>
   RIGHT_FACE_EDGE < length demo_keypoints2 \<and>
   smooth (app (run demo_second_awaiting)) = Some demo_smooth \<and>
   smoothingFactor (app (run demo_second_awaiting)) = 0.35 \<and>
   smooth (app (runDetection_resume (run demo_second_awaiting) demo_video2
                  (Faces [demo_landmarks2]) 1100)) =
     Some \<lparr> centerX = 341, centerY = 261, sm_eyeDistance = 94, sm_roll = 0,
            sm_yaw = 2011 / 6000, sm_keypoints = demo_keypoints2 \<rparr> \<and>
   lastRawTransform (app (runDetection_resume (run demo_second_awaiting) demo_video2
                            (Faces [demo_landmarks2]) 1100)) =
     Some \<lparr> center = \<lparr> kp_x = 341, kp_y = 261, kp_z = None \<rparr>, eyeDistance = 94, roll = 0,
            yaw = 2011 / 6000, keypoints = demo_keypoints2 \<rparr> \<and>
   lastFaceTime (app (runDetection_resume (run demo_second_awaiting) demo_video2
                        (Faces [demo_landmarks2]) 1100)) = 1100"
proof -
  have dup: "currentTime demo_video = lastVideoTime (facejs (run demo_tracking))"
    by (simp add: run_demo_tracking demo_video_def)
  have none: "fst (detectFace (facejs (run demo_tracking)) demo_video (Faces [demo_landmarks])) = None"
    using detection_outcome_effect[of _ demo_video "Faces [demo_landmarks]" _ _
        "facejs (run demo_tracking)"] dup
    by simp
  have some: "fst (detectFace (facejs (run demo_awaiting)) demo_video (Faces [demo_landmarks])) =
      Some demo_keypoints"
    by (simp add: run_demo_awaiting demo_detect)
  have len: "RIGHT_FACE_EDGE < length demo_keypoints"
    by (simp add: RIGHT_FACE_EDGE_def demo_keypoints_len)
  have empty: "smooth (app (run demo_awaiting)) = None"
    by (simp add: run_demo_awaiting initial_state_def)
  have some2: "fst (detectFace (facejs (run demo_second_awaiting)) demo_video2
                  (Faces [demo_landmarks2])) = Some demo_keypoints2"
    using demo_detect2 by (simp add: run_demo_second_awaiting)
  have len2: "RIGHT_FACE_EDGE < length demo_keypoints2"
    by (simp add: RIGHT_FACE_EDGE_def demo_keypoints2_len)
  have kept: "smooth (app (run demo_second_awaiting)) = Some demo_smooth"
      "smoothingFactor (app (run demo_second_awaiting)) = 0.35"
    by (simp_all add: run_demo_second_awaiting initial_state_def)
  have first: "smooth (app (runDetection_resume (run demo_awaiting) demo_video
                   (Faces [demo_landmarks]) 1050)) = Some demo_smooth \<and>
      lastFaceTime (app (runDetection_resume (run demo_awaiting) demo_video
                   (Faces [demo_landmarks]) 1050)) = 1050 \<and>
      lastRawTransform (app (runDetection_resume (run demo_awaiting) demo_video
                   (Faces [demo_landmarks]) 1050)) = Some demo_pose"
    using detection_outcome_effect[of "run demo_awaiting" demo_video "Faces [demo_landmarks]"
        1050 0 "facejs (run demo_awaiting)" demo_keypoints] some len empty
    by (auto simp add: demo_extract demo_raw_def demo_smooth_def demo_pose_def)
  have second: "smooth (app (runDetection_resume (run demo_second_awaiting) demo_video2
                  (Faces [demo_landmarks2]) 1100)) =
       Some \<lparr> centerX = 341, centerY = 261, sm_eyeDistance = 94, sm_roll = 0,
              sm_yaw = 2011 / 6000, sm_keypoints = demo_keypoints2 \<rparr> \<and>
     lastRawTransform (app (runDetection_resume (run demo_second_awaiting) demo_video2
                            (Faces [demo_landmarks2]) 1100)) =
       Some \<lparr> center = \<lparr> kp_x = 341, kp_y = 261, kp_z = None \<rparr>, eyeDistance = 94, roll = 0,
              yaw = 2011 / 6000, keypoints = demo_keypoints2 \<rparr> \<and>
     lastFaceTime (app (runDetection_resume (run demo_second_awaiting) demo_video2
                        (Faces [demo_landmarks2]) 1100)) = 1100"
    using detection_outcome_effect[of "run demo_second_awaiting" demo_video2
        "Faces [demo_landmarks2]" 1100 0 "facejs (run demo_second_awaiting)" demo_keypoints2]
      some2 len2 kept
    by (auto simp add: demo_extract2 demo_raw2_def demo_smooth_def)
  show ?thesis
    using detection_outcome_effect[of "run demo_tracking" demo_video "Faces [demo_landmarks]" 1100
        0 "facejs (run demo_tracking)" demo_keypoints]
      dup none some len empty some2 len2 kept first second
    by (simp add: run_demo_tracking)
qed

lemma call_guard:
  "runDetection_call sys =
     (if running (app sys) \<and> modelReady (app sys) \<and> \<not> detecting (app sys)
      then sys\<lparr> app := (app sys)\<lparr> detecting := True \<rparr>, inflight := inflight sys + 1 \<rparr>
      else sys)"
  by (simp add: runDetection_call_def)

lemma step_single_flight:
  assumes "inflight sys \<le> 1" and "inflight sys = 1 \<longleftrightarrow> detecting (app sys)"
  shows "inflight (step sys ev) \<le> 1 \<and> (inflight (step sys ev) = 1 \<longleftrightarrow> detecting (app (step sys ev)))"
proof (cases ev)
  case (Tick now)
  from assms have "inflight sys = 0 \<or> inflight sys = 1" by linarith
  then show ?thesis
    using assms Tick by (auto simp: step_def renderLoop_def Let_def call_guard)
next
  case (DetectionDone v res now)
  from assms have "inflight sys = 0 \<or> inflight sys = 1" by linarith
  then show ?thesis
    using assms DetectionDone
    by (auto simp: step_def runDetection_resume_def split_beta)
qed (use assms in \<open>simp_all add: step_def\<close>)

lemma run_single_flight:
  "inflight (run evs) \<le> 1 \<and> (inflight (run evs) = 1 \<longleftrightarrow> detecting (app (run evs)))"
proof (rule run_invariant)
  show "inflight initial_system \<le> 1 \<and>
        (inflight initial_system = 1 \<longleftrightarrow> detecting (app initial_system))"
    by (simp add: initial_system_def initial_state_def)
next
  fix sys :: system and ev :: event
  assume "inflight sys \<le> 1 \<and> (inflight sys = 1 \<longleftrightarrow> detecting (app sys))"
  then show "inflight (step sys ev) \<le> 1 \<and>
        (inflight (step sys ev) = 1 \<longleftrightarrow> detecting (app (step sys ev)))"
    using step_single_flight[of sys ev] by blast
qed

text \<open>
  Claim C8. After any sequence of events at most one detection is awaited, and the guard
  flag is set exactly while one is. The interval is 2 in every reachable state; a render
  tick starts a detection only when the incremented frame count is a multiple of the
  interval, the session runs, the model is ready and the flag is clear, and it then
  starts exactly one. With the flag set, a call of runDetection changes nothing at all
  (the request leaves no trace to be served later) and a tick only counts the frame.
\<close>

theorem single_detection_in_flight:
  "inflight (run evs) \<le> 1 \<and>
   (inflight (run evs) = 1 \<longleftrightarrow> detecting (app (run evs))) \<and>
   detectionInterval (app (run evs)) = 2 \<and>
   (inflight (snd (renderLoop sys now)) \<noteq> inflight sys \<longrightarrow>
      inflight (snd (renderLoop sys now)) = inflight sys + 1 \<and>
      frameCount (app (snd (renderLoop sys now))) = frameCount (app sys) + 1 \<and>
      frameCount (app (snd (renderLoop sys now))) mod detectionInterval (app sys) = 0 \<and>
      running (app sys) \<and> modelReady (app sys) \<and> \<not> detecting (app sys)) \<and>
   (detecting (app sys) \<longrightarrow> runDetection_call sys = sys) \<and>
   (detecting (app sys) \<and> running (app sys) \<longrightarrow>
      snd (renderLoop sys now) =
        sys\<lparr> app := (app sys)\<lparr> frameCount := frameCount (app sys) + 1 \<rparr> \<rparr>)"
proof (intro conjI impI)
  show "inflight (run evs) \<le> 1"
    using run_single_flight by blast
  show "inflight (run evs) = 1 \<longleftrightarrow> detecting (app (run evs))"
    using run_single_flight by blast
  show "detectionInterval (app (run evs)) = 2"
    by (simp add: run_constants)
next
  assume changed: "inflight (snd (renderLoop sys now)) \<noteq> inflight sys"
  then have all: "inflight (snd (renderLoop sys now)) = inflight sys + 1 \<and>
      frameCount (app (snd (renderLoop sys now))) = frameCount (app sys) + 1 \<and>
      frameCount (app (snd (renderLoop sys now))) mod detectionInterval (app sys) = 0 \<and>
      running (app sys) \<and> modelReady (app sys) \<and> \<not> detecting (app sys)"
    by (auto simp: renderLoop_def Let_def call_guard split: if_splits)
  from all show "inflight (snd (renderLoop sys now)) = inflight sys + 1" by simp
  from all show "frameCount (app (snd (renderLoop sys now))) = frameCount (app sys) + 1" by simp
  from all show "frameCount (app (snd (renderLoop sys now))) mod detectionInterval (app sys) = 0"
    by blast
  from all show "running (app sys)" by simp
  from all show "modelReady (app sys)" by simp
  from all show "\<not> detecting (app sys)" by simp
next
  assume "detecting (app sys)"
  then show "runDetection_call sys = sys"
    by (simp add: call_guard)
next
  assume "detecting (app sys) \<and> running (app sys)"
  then show "snd (renderLoop sys now) =
        sys\<lparr> app := (app sys)\<lparr> frameCount := frameCount (app sys) + 1 \<rparr> \<rparr>"
    by (simp add: renderLoop_def Let_def call_guard)
qed

lemma run_demo_started:
  "run demo_started =
     \<lparr> app = initial_state\<lparr> running := True, frameCount := 1, modelReady := True,
                            glassesAssets := [demo_asset] \<rparr>,
       facejs = \<lparr> hasDetector = True, lastVideoTime = - 1, attempts = 0, successes = 0,
                  errors = 0 \<rparr>,
       inflight = 0 \<rparr>"
  by (simp add: run_def demo_started_def step_def initial_system_def initial_state_def
      renderLoop_def runDetection_call_def Let_def)

theorem single_detection_in_flight_witness:
  "inflight (run demo_awaiting) = 1 \<and> detecting (app (run demo_awaiting)) \<and>
   running (app (run demo_awaiting)) \<and>
   inflight (run demo_started) = 0 \<and>
   inflight (snd (renderLoop (run demo_started) 1016)) = 1 \<and>
   frameCount (app (snd (renderLoop (run demo_started) 1016))) = 2 \<and>
   runDetection_call (run demo_awaiting) = run demo_awaiting \<and>
   snd (renderLoop (run demo_awaiting) 1033) =
     (run demo_awaiting)\<lparr> app := (app (run demo_awaiting))\<lparr> frameCount := 3 \<rparr> \<rparr> \<and>
   inflight (snd (renderLoop (snd (renderLoop (run demo_awaiting) 1033)) 1050)) = 1 \<and>
   frameCount (app (snd (renderLoop (snd (renderLoop (run demo_awaiting) 1033)) 1050))) = 4"
proof -
  have started: "inflight (snd (renderLoop (run demo_started) 1016)) \<noteq> inflight (run demo_started)"
    by (simp add: run_demo_started initial_state_def renderLoop_def Let_def call_guard)
  have awaiting: "detecting (app (run demo_awaiting))" "running (app (run demo_awaiting))"
    by (simp_all add: run_demo_awaiting initial_state_def)
  have next_tick: "detecting (app (snd (renderLoop (run demo_awaiting) 1033)))"
      "running (app (snd (renderLoop (run demo_awaiting) 1033)))"
    using single_detection_in_flight[of demo_awaiting "run demo_awaiting" 1033] awaiting
    by simp_all
  show ?thesis
    using single_detection_in_flight[of demo_awaiting "run demo_started" 1016]
      single_detection_in_flight[of demo_awaiting "run demo_awaiting" 1033]
      single_detection_in_flight[of demo_awaiting "snd (renderLoop (run demo_awaiting) 1033)" 1050]
      started awaiting next_tick
    by (simp add: run_demo_started run_demo_awaiting initial_state_def)
qed

section \<open>The compositor\<close>

lemmas render_consts =
  ANCHOR_LEFT_X_def ANCHOR_RIGHT_X_def ANCHOR_Y_def YAW_WIDTH_FACTOR_def YAW_HEIGHT_FACTOR_def

lemma anchorSpan_pos: "0 < img_width glassesImg \<Longrightarrow> 0 < anchorSpan glassesImg"
  by (simp add: anchorSpan_def render_consts)

lemma baseScale_ok:
  "0 < img_width glassesImg \<Longrightarrow>
     baseScale glassesImg ed m = Inr (ed / anchorSpan glassesImg * m)"
  using anchorSpan_pos[of glassesImg] by (simp add: baseScale_def js_div_pos)

lemma drawGlasses_ok:
  assumes "baseScale glassesImg (eyeDistance t) m = Inr bs"
  shows "drawGlasses hv t glassesImg m off =
     Inr \<lparr> translate = (kp_x (center t), kp_y (center t) + off),
           rotate = roll t,
           left_draw = \<lparr> src = half_left hv,
             dx = - (real (img_width glassesImg) * bs / 2 * (1 + yaw t * 0.40)),
             dy = - (real (img_height glassesImg) * bs * (1 + yaw t * 0.12)) / 2
                  + (0.45 - 0.5) * (real (img_height glassesImg) * bs),
             dw = real (img_width glassesImg) * bs / 2 * (1 + yaw t * 0.40),
             dh = real (img_height glassesImg) * bs * (1 + yaw t * 0.12) \<rparr>,
           right_draw = \<lparr> src = half_right hv, dx = 0,
             dy = - (real (img_height glassesImg) * bs * (1 - yaw t * 0.12)) / 2
                  + (0.45 - 0.5) * (real (img_height glassesImg) * bs),
             dw = real (img_width glassesImg) * bs / 2 * (1 - yaw t * 0.40),
             dh = real (img_height glassesImg) * bs * (1 - yaw t * 0.12) \<rparr> \<rparr>"
  using assms
  by (simp add: drawGlasses_def Let_def lWidthScale_def rWidthScale_def lHeightScale_def
      rHeightScale_def render_consts)

text \<open>
  Claim C6. For a source image of non-zero width (the loader replaces every image under
  20 pixels), \<open>anchorSpan\<close> is the distance between the anchor columns at 30% and 70% of
  the width, \<open>baseScale\<close> is \<open>(eyeDistance / anchorSpan) * scaleMultiplier\<close>, it is exactly
  2 for \<open>eyeDistance = 2 * anchorSpan\<close> and multiplier 1.0, and doubling the multiplier
  doubles it for every eyeDistance. In drawGlasses the two halves together are as wide
  as the image scaled by \<open>baseScale\<close>.
\<close>

theorem baseScale_law:
  "0 < img_width glassesImg \<longrightarrow>
     anchorSpan glassesImg =
       0.70 * real (img_width glassesImg) - 0.30 * real (img_width glassesImg) \<and>
     baseScale glassesImg ed m = Inr (ed / anchorSpan glassesImg * m) \<and>
     baseScale glassesImg (2 * anchorSpan glassesImg) 1.0 = Inr 2.0 \<and>
     baseScale glassesImg ed (2 * m) = Inr (2 * (ed / anchorSpan glassesImg * m)) \<and>
     (\<exists>g. drawGlasses hv t glassesImg m off = Inr g \<and>
        dw (left_draw g) + dw (right_draw g) =
          real (img_width glassesImg) * (eyeDistance t / anchorSpan glassesImg * m))"
proof (intro impI conjI)
  assume w: "0 < img_width glassesImg"
  show "anchorSpan glassesImg =
       0.70 * real (img_width glassesImg) - 0.30 * real (img_width glassesImg)"
    by (simp add: anchorSpan_def render_consts algebra_simps)
  show "baseScale glassesImg ed m = Inr (ed / anchorSpan glassesImg * m)"
    by (rule baseScale_ok[OF w])
  show "baseScale glassesImg (2 * anchorSpan glassesImg) 1.0 = Inr 2.0"
    using anchorSpan_pos[OF w] by (simp add: baseScale_ok[OF w])
  show "baseScale glassesImg ed (2 * m) = Inr (2 * (ed / anchorSpan glassesImg * m))"
    by (simp add: baseScale_ok[OF w])
  show "\<exists>g. drawGlasses hv t glassesImg m off = Inr g \<and>
        dw (left_draw g) + dw (right_draw g) =
          real (img_width glassesImg) * (eyeDistance t / anchorSpan glassesImg * m)"
    using anchorSpan_pos[OF w]
    by (simp add: drawGlasses_ok[OF baseScale_ok[OF w]] field_simps)
qed

theorem baseScale_law_witness:
  "0 < img_width (img demo_asset) \<and>
   anchorSpan (img demo_asset) = 160 \<and>
   baseScale (img demo_asset) 80 1 = Inr (1 / 2) \<and>
   baseScale (img demo_asset) 320 1 = Inr 2 \<and>
   baseScale (img demo_asset) 80 2 = Inr 1"
  using baseScale_law[of "img demo_asset" 80 1 "asset_halves demo_asset" demo_pose 0]
    baseScale_law[of "img demo_asset" 320 1 "asset_halves demo_asset" demo_pose 0]
  by (simp add: demo_asset_def anchorSpan_def render_consts)

text \<open>
  Claim C7. The per-half factors of drawGlasses are \<open>1 + yaw * 0.40\<close> and
  \<open>1 - yaw * 0.40\<close> for the widths and \<open>1 + yaw * 0.12\<close> and \<open>1 - yaw * 0.12\<close> for the
  heights; at yaw 0.5 the width factors are 1.20 and 0.80, at yaw 0 the two halves have
  the same factors; and these factors are what scales the two drawn rectangles.
\<close>

theorem yaw_half_scales:
  "lWidthScale yw = 1 + yw * 0.40 \<and> rWidthScale yw = 1 - yw * 0.40 \<and>
   lHeightScale yw = 1 + yw * 0.12 \<and> rHeightScale yw = 1 - yw * 0.12 \<and>
   lWidthScale 0.5 = 1.20 \<and> rWidthScale 0.5 = 0.80 \<and>
   lWidthScale 0 = rWidthScale 0 \<and> lHeightScale 0 = rHeightScale 0 \<and>
   (baseScale glassesImg (eyeDistance t) m = Inr bs \<longrightarrow>
      (\<exists>g. drawGlasses hv t glassesImg m off = Inr g \<and>
         dw (left_draw g) = real (img_width glassesImg) * bs / 2 * lWidthScale (yaw t) \<and>
         dw (right_draw g) = real (img_width glassesImg) * bs / 2 * rWidthScale (yaw t) \<and>
         dh (left_draw g) = real (img_height glassesImg) * bs * lHeightScale (yaw t) \<and>
         dh (right_draw g) = real (img_height glassesImg) * bs * rHeightScale (yaw t) \<and>
         (yaw t = 0 \<longrightarrow> dw (left_draw g) = dw (right_draw g) \<and>
                          dh (left_draw g) = dh (right_draw g))))"
proof (intro conjI impI)
  assume bs: "baseScale glassesImg (eyeDistance t) m = Inr bs"
  show "\<exists>g. drawGlasses hv t glassesImg m off = Inr g \<and>
         dw (left_draw g) = real (img_width glassesImg) * bs / 2 * lWidthScale (yaw t) \<and>
         dw (right_draw g) = real (img_width glassesImg) * bs / 2 * rWidthScale (yaw t) \<and>
         dh (left_draw g) = real (img_height glassesImg) * bs * lHeightScale (yaw t) \<and>
         dh (right_draw g) = real (img_height glassesImg) * bs * rHeightScale (yaw t) \<and>
         (yaw t = 0 \<longrightarrow> dw (left_draw g) = dw (right_draw g) \<and>
                          dh (left_draw g) = dh (right_draw g))"
    by (simp add: drawGlasses_ok[OF bs] lWidthScale_def rWidthScale_def lHeightScale_def
        rHeightScale_def render_consts)
qed (simp_all add: lWidthScale_def rWidthScale_def lHeightScale_def rHeightScale_def
       render_consts)

theorem yaw_half_scales_witness:
  "baseScale (img demo_asset) (eyeDistance (demo_pose\<lparr> yaw := 0.5 \<rparr>)) 1 = Inr (1 / 2) \<and>
   (\<exists>g. drawGlasses (asset_halves demo_asset) (demo_pose\<lparr> yaw := 0.5 \<rparr>) (img demo_asset) 1 0
           = Inr g \<and>
      dw (left_draw g) = 120 \<and> dw (right_draw g) = 80 \<and>
      dh (left_draw g) = 84.8 \<and> dh (right_draw g) = 75.2)"
proof -
  have bs: "baseScale (img demo_asset) (eyeDistance (demo_pose\<lparr> yaw := 0.5 \<rparr>)) 1 = Inr (1 / 2)"
    by (simp add: baseScale_ok demo_asset_def demo_pose_def anchorSpan_def render_consts)
  show ?thesis
    using yaw_half_scales[of "0.5" "img demo_asset" "demo_pose\<lparr> yaw := 0.5 \<rparr>" 1 "1 / 2"
        "asset_halves demo_asset" 0] bs
    by (simp add: demo_asset_def demo_pose_def lWidthScale_def rWidthScale_def
        lHeightScale_def rHeightScale_def render_consts)
qed

end
